theory Spec2Isabelle
  imports Complex_Main
begin

unbundle bit_operations_syntax

section \<open>Data model\<close>

text \<open>
  The strategy of \<^verbatim>\<open>strategy_base.pyx\<close> (class \<^verbatim>\<open>StrategyBase\<close>) and of the arbitrage
  file that follows it in the same source (class \<^verbatim>\<open>ArbitrageStrategy\<close> and the
  module function \<^verbatim>\<open>c_find_profitable_arbitrage_orders\<close>).

  Conventions of the embedding:
  \<^item> a C \<^verbatim>\<open>double\<close> holding a finite value is a \<open>real\<close>; a \<^verbatim>\<open>double\<close> that may be
    NaN (the default \<^verbatim>\<open>expiration_seconds\<close>, the result of \<^verbatim>\<open>float(Decimal("NaN"))\<close>) is a
    \<open>real option\<close> with \<open>None\<close> for NaN;
  \<^item> the two subtractions that update the leftovers of the matching loop round to
    the nearest double (\<open>double_sub\<close> below), since the total of the matched amounts
    depends on it; the arithmetic on timestamps, fees and sizes is exact;
  \<^item> a raised exception is \<open>Inl\<close> of an \<open>error\<close>; a method that mutates the
    strategy returns the new state next to its result, so the mutations made before
    a raise are kept, as in Python;
  \<^item> the calls the strategy makes on a market that change the market
    (\<^verbatim>\<open>c_add_listener\<close>, \<^verbatim>\<open>c_buy\<close>, \<^verbatim>\<open>c_sell\<close>) are recorded in the state, in call order;
  \<^item> logging is not modelled, except where building the log message can raise.
\<close>

datatype error =
    RuntimeError | TypeError | ValueError | ZeroDivisionError | AttributeError
  | EnvironmentError | FeeLookupError | QuantizationError

type_synonym market = string

record market_symbol_pair =
  market :: market
  trading_pair :: string
  base_asset :: string
  quote_asset :: string

record arbitrage_market_pair =
  first :: market_symbol_pair
  second :: market_symbol_pair

datatype order_type = MARKET | LIMIT

datatype trade_type = BUY | SELL

datatype network_status = STOPPED | NOT_CONNECTED | CONNECTED

text \<open>Python objects that reach the \<^verbatim>\<open>amount\<close> and \<^verbatim>\<open>price\<close> parameters.\<close>

text \<open>
  A \<^verbatim>\<open>Decimal\<close> is a finite number, the quiet NaN (\<^verbatim>\<open>Decimal("NaN")\<close>) or the signaling
  NaN (\<^verbatim>\<open>Decimal("sNaN")\<close>).
\<close>

datatype decimal = DecNaN | DecSNaN | Dec real

datatype pyobj = PyDecimal decimal | PyFloat "real option" | PyInt int | PyNone

definition isinstance_Decimal :: "pyobj \<Rightarrow> bool" where
  "isinstance_Decimal x = (case x of PyDecimal _ \<Rightarrow> True | _ \<Rightarrow> False)"

definition decimal_nan :: pyobj where
  "decimal_nan = PyDecimal DecNaN"

definition NaN :: "real option" where
  "NaN = None"

text \<open>
  \<^verbatim>\<open>float(x)\<close>: the quiet NaN becomes the NaN double, the signaling NaN raises
  \<^verbatim>\<open>ValueError\<close>. The placement methods call it only after the \<^verbatim>\<open>isinstance\<close> check.
\<close>

definition float_of_decimal :: "decimal \<Rightarrow> error + real option" where
  "float_of_decimal d =
     (case d of DecNaN \<Rightarrow> Inr None | DecSNaN \<Rightarrow> Inl ValueError | Dec r \<Rightarrow> Inr (Some r))"

definition float_of :: "pyobj \<Rightarrow> error + real option" where
  "float_of x = (case x of PyDecimal d \<Rightarrow> float_of_decimal d | PyFloat f \<Rightarrow> Inr f
                 | PyInt i \<Rightarrow> Inr (Some (real_of_int i)) | PyNone \<Rightarrow> Inl TypeError)"

text \<open>\<^verbatim>\<open>max(a, b)\<close> on two C doubles is \<^verbatim>\<open>b > a ? b : a\<close>: a NaN \<open>b\<close> loses.\<close>

definition double_max :: "real \<Rightarrow> real option \<Rightarrow> real" where
  "double_max a b = (case b of None \<Rightarrow> a | Some y \<Rightarrow> if y > a then y else a)"

datatype event_tag =
    BUY_ORDER_COMPLETED_EVENT_TAG | SELL_ORDER_COMPLETED_EVENT_TAG
  | ORDER_FILLED_EVENT_TAG | ORDER_CANCELLED_EVENT_TAG | ORDER_EXPIRED_EVENT_TAG
  | ORDER_FAILURE_EVENT_TAG | BUY_ORDER_CREATED_EVENT_TAG | SELL_ORDER_CREATED_EVENT_TAG

datatype listener =
    BuyOrderCompletedListener | SellOrderCompletedListener | OrderFilledListener
  | OrderFailedListener | OrderCancelledListener | OrderExpiredListener
  | BuyOrderCreatedListener | SellOrderCreatedListener

subsection \<open>The order tracker\<close>

record market_order =
  mo_order_id :: string
  mo_is_buy :: bool
  mo_amount :: pyobj
  mo_timestamp :: real

record limit_order =
  lo_order_id :: string
  lo_is_buy :: bool
  lo_price :: pyobj
  lo_quantity :: pyobj

text \<open>
  A dict from market pair to a dict from order id to order: the outer dict is a map,
  the inner one an association list in insertion order.
\<close>

record order_tracker =
  ot_current_timestamp :: real
  tracked_taker_orders :: "market_symbol_pair \<rightharpoonup> (string \<times> market_order) list"
  tracked_maker_orders :: "market_symbol_pair \<rightharpoonup> (string \<times> limit_order) list"

definition dict_set :: "('k \<times> 'v) list \<Rightarrow> 'k \<Rightarrow> 'v \<Rightarrow> ('k \<times> 'v) list" where
  "dict_set d k v =
     (if k \<in> fst ` set d then map (\<lambda>(k', v'). if k' = k then (k', v) else (k', v')) d
      else d @ [(k, v)])"

definition OrderTracker :: order_tracker where
  \<comment> \<open>Modelled from the spec: \<^verbatim>\<open>OrderTracker()\<close> of \<^verbatim>\<open>order_tracker.py\<close>, which is not in
      the source; a new ledger tracks no order.\<close>
  "OrderTracker =
     \<lparr>ot_current_timestamp = 0, tracked_taker_orders = Map.empty,
      tracked_maker_orders = Map.empty\<rparr>"

definition ot_c_tick :: "order_tracker \<Rightarrow> real \<Rightarrow> order_tracker" where
  \<comment> \<open>Modelled from the spec: \<^verbatim>\<open>OrderTracker.c_tick\<close> is not in the source; the scheduler
      ticks the ledger, which takes the tick time as its clock.\<close>
  "ot_c_tick ot timestamp = ot\<lparr>ot_current_timestamp := timestamp\<rparr>"

definition ot_c_start_tracking_market_order ::
  "order_tracker \<Rightarrow> market_symbol_pair \<Rightarrow> string \<Rightarrow> bool \<Rightarrow> pyobj \<Rightarrow> order_tracker" where
  \<comment> \<open>Modelled from the spec: \<^verbatim>\<open>OrderTracker.c_start_tracking_market_order\<close> is not in the
      source; a tracked order is (order id, owning market pair, side, kind, quantity,
      creation timestamp), created once when a placement succeeds, at most one entry
      per order id.\<close>
  "ot_c_start_tracking_market_order ot market_pair order_id is_buy quantity =
     ot\<lparr>tracked_taker_orders := (tracked_taker_orders ot)(market_pair \<mapsto>
          dict_set (case tracked_taker_orders ot market_pair of None \<Rightarrow> [] | Some d \<Rightarrow> d)
            order_id
            \<lparr>mo_order_id = order_id, mo_is_buy = is_buy, mo_amount = quantity,
             mo_timestamp = ot_current_timestamp ot\<rparr>)\<rparr>"

definition ot_c_start_tracking_limit_order ::
  "order_tracker \<Rightarrow> market_symbol_pair \<Rightarrow> string \<Rightarrow> bool \<Rightarrow> pyobj \<Rightarrow> pyobj \<Rightarrow> order_tracker" where
  \<comment> \<open>Modelled from the spec: \<^verbatim>\<open>OrderTracker.c_start_tracking_limit_order\<close> is not in the
      source; as for market orders, with the price that only limit orders have.\<close>
  "ot_c_start_tracking_limit_order ot market_pair order_id is_buy price' quantity =
     ot\<lparr>tracked_maker_orders := (tracked_maker_orders ot)(market_pair \<mapsto>
          dict_set (case tracked_maker_orders ot market_pair of None \<Rightarrow> [] | Some d \<Rightarrow> d)
            order_id
            \<lparr>lo_order_id = order_id, lo_is_buy = is_buy, lo_price = price',
             lo_quantity = quantity\<rparr>)\<rparr>"

definition ot_c_get_taker_orders ::
  "order_tracker \<Rightarrow> market_symbol_pair \<rightharpoonup> (string \<times> market_order) list" where
  \<comment> \<open>Modelled from the spec: \<^verbatim>\<open>OrderTracker.c_get_taker_orders\<close> is not in the source; it
      is the mapping from pair to the mapping from order id to tracked market order.\<close>
  "ot_c_get_taker_orders ot = tracked_taker_orders ot"

subsection \<open>The strategy object and the calls it has made on its markets\<close>

text \<open>What \<^verbatim>\<open>market.c_buy\<close> and \<^verbatim>\<open>market.c_sell\<close> receive.\<close>

record order_request =
  or_market :: market
  or_is_buy :: bool
  or_trading_pair :: string
  or_native_amount :: "real option"
  or_order_type :: order_type
  or_native_price :: "real option"
  or_expiration_ts :: real

record strategy =
  current_timestamp :: real
  sb_markets :: "market set"
  sb_limit_order_min_expiration :: real
  sb_delegate_lock :: bool
  sb_order_tracker :: order_tracker
  logging_options :: int
  market_pairs :: "arbitrage_market_pair list"
  min_profitability :: real
  all_markets_ready :: bool
  status_report_interval :: real
  last_timestamp :: real
  next_trade_delay :: real
  last_trade_timestamps :: "market_symbol_pair \<rightharpoonup> real"
  add_listener_calls :: "(market \<times> event_tag \<times> listener) list"
  orders_submitted :: "order_request list"

definition OPTION_LOG_STATUS_REPORT :: int where "OPTION_LOG_STATUS_REPORT = 1"
definition OPTION_LOG_CREATE_ORDER :: int where "OPTION_LOG_CREATE_ORDER = 2"
definition OPTION_LOG_ORDER_COMPLETED :: int where "OPTION_LOG_ORDER_COMPLETED = 4"
definition OPTION_LOG_PROFITABILITY_STEP :: int where "OPTION_LOG_PROFITABILITY_STEP = 8"
definition OPTION_LOG_FULL_PROFITABILITY_STEP :: int where
  "OPTION_LOG_FULL_PROFITABILITY_STEP = 16"
definition OPTION_LOG_INSUFFICIENT_ASSET :: int where "OPTION_LOG_INSUFFICIENT_ASSET = 32"

definition MARKET_ORDER_MAX_TRACKING_TIME :: real where
  "MARKET_ORDER_MAX_TRACKING_TIME = 60 * 10"

section \<open>StrategyBase: markets and guarded order placement\<close>

text \<open>
  \<^verbatim>\<open>c_add_markets\<close>: for every market of the list, eight \<^verbatim>\<open>c_add_listener\<close> calls in the
  order of the source, then \<^verbatim>\<open>self._sb_markets.add\<close>. The loop has no membership test.
\<close>

definition market_subscriptions :: "market \<Rightarrow> (market \<times> event_tag \<times> listener) list" where
  "market_subscriptions m =
     [(m, BUY_ORDER_CREATED_EVENT_TAG, BuyOrderCreatedListener),
      (m, SELL_ORDER_CREATED_EVENT_TAG, SellOrderCreatedListener),
      (m, ORDER_FILLED_EVENT_TAG, OrderFilledListener),
      (m, ORDER_FAILURE_EVENT_TAG, OrderFailedListener),
      (m, ORDER_CANCELLED_EVENT_TAG, OrderCancelledListener),
      (m, ORDER_EXPIRED_EVENT_TAG, OrderExpiredListener),
      (m, BUY_ORDER_COMPLETED_EVENT_TAG, BuyOrderCompletedListener),
      (m, SELL_ORDER_COMPLETED_EVENT_TAG, SellOrderCompletedListener)]"

fun c_add_markets :: "strategy \<Rightarrow> market list \<Rightarrow> strategy" where
  "c_add_markets s [] = s"
| "c_add_markets s (typed_market # markets) =
     c_add_markets
       (s\<lparr>add_listener_calls := add_listener_calls s @ market_subscriptions typed_market,
          sb_markets := insert typed_market (sb_markets s)\<rparr>)
       markets"

text \<open>
  Order submission is asynchronous in this code base: \<^verbatim>\<open>market.c_buy\<close> and
  \<^verbatim>\<open>market.c_sell\<close> hand back the client order id, and an order the exchange refuses
  comes back later as an \<^verbatim>\<open>OrderFailure\<close> event (the listener for it is subscribed
  above). The market's choice of order id is a parameter: a function of the
  requests it has accepted so far and of the new request.
\<close>

type_synonym submit = "order_request list \<Rightarrow> order_request \<Rightarrow> string"

definition c_start_tracking_limit_order ::
  "strategy \<Rightarrow> market_symbol_pair \<Rightarrow> string \<Rightarrow> bool \<Rightarrow> pyobj \<Rightarrow> pyobj \<Rightarrow> strategy" where
  "c_start_tracking_limit_order s market_pair order_id is_buy price' quantity =
     s\<lparr>sb_order_tracker :=
          ot_c_start_tracking_limit_order (sb_order_tracker s) market_pair order_id is_buy
            price' quantity\<rparr>"

definition c_start_tracking_market_order ::
  "strategy \<Rightarrow> market_symbol_pair \<Rightarrow> string \<Rightarrow> bool \<Rightarrow> pyobj \<Rightarrow> strategy" where
  "c_start_tracking_market_order s market_pair order_id is_buy quantity =
     s\<lparr>sb_order_tracker :=
          ot_c_start_tracking_market_order (sb_order_tracker s) market_pair order_id is_buy
            quantity\<rparr>"

definition c_buy_with_specific_market ::
  "submit \<Rightarrow> strategy \<Rightarrow> market_symbol_pair \<Rightarrow> pyobj \<Rightarrow> order_type \<Rightarrow> pyobj \<Rightarrow>
   real option \<Rightarrow> (error + string) \<times> strategy" where
  "c_buy_with_specific_market market_c_buy s market_symbol_pair amount' order_type' price'
       expiration_seconds =
     (if sb_delegate_lock s then (Inl RuntimeError, s)
      else if \<not> (isinstance_Decimal amount' \<and> isinstance_Decimal price')
        then (Inl TypeError, s)
      else
        let expiration_ts =
              current_timestamp s
                + double_max (sb_limit_order_min_expiration s) expiration_seconds;
            market' = market market_symbol_pair
        in
          (case float_of amount' of
             Inl err \<Rightarrow> (Inl err, s)
           | Inr native_amount \<Rightarrow>
          (case float_of price' of
             Inl err \<Rightarrow> (Inl err, s)
           | Inr native_price \<Rightarrow>
               if market' \<notin> sb_markets s then (Inl ValueError, s)
               else
                 let request =
                       \<lparr>or_market = market', or_is_buy = True,
                        or_trading_pair = trading_pair market_symbol_pair,
                        or_native_amount = native_amount, or_order_type = order_type',
                        or_native_price = native_price, or_expiration_ts = expiration_ts\<rparr>;
                     order_id = market_c_buy (orders_submitted s) request;
                     s1 = s\<lparr>orders_submitted := orders_submitted s @ [request]\<rparr>;
                     s2 = (case order_type' of
                             LIMIT \<Rightarrow>
                               c_start_tracking_limit_order s1 market_symbol_pair order_id
                                 True price' amount'
                           | MARKET \<Rightarrow>
                               c_start_tracking_market_order s1 market_symbol_pair order_id
                                 True amount')
                 in (Inr order_id, s2))))"

definition c_sell_with_specific_market ::
  "submit \<Rightarrow> strategy \<Rightarrow> market_symbol_pair \<Rightarrow> pyobj \<Rightarrow> order_type \<Rightarrow> pyobj \<Rightarrow>
   real option \<Rightarrow> (error + string) \<times> strategy" where
  "c_sell_with_specific_market market_c_sell s market_symbol_pair amount' order_type' price'
       expiration_seconds =
     (if sb_delegate_lock s then (Inl RuntimeError, s)
      else if \<not> (isinstance_Decimal amount' \<and> isinstance_Decimal price')
        then (Inl TypeError, s)
      else
        let expiration_ts =
              current_timestamp s
                + double_max (sb_limit_order_min_expiration s) expiration_seconds;
            market' = market market_symbol_pair
        in
          (case float_of amount' of
             Inl err \<Rightarrow> (Inl err, s)
           | Inr native_amount \<Rightarrow>
          (case float_of price' of
             Inl err \<Rightarrow> (Inl err, s)
           | Inr native_price \<Rightarrow>
               if market' \<notin> sb_markets s then (Inl ValueError, s)
               else
                 let request =
                       \<lparr>or_market = market', or_is_buy = False,
                        or_trading_pair = trading_pair market_symbol_pair,
                        or_native_amount = native_amount, or_order_type = order_type',
                        or_native_price = native_price, or_expiration_ts = expiration_ts\<rparr>;
                     order_id = market_c_sell (orders_submitted s) request;
                     s1 = s\<lparr>orders_submitted := orders_submitted s @ [request]\<rparr>;
                     s2 = (case order_type' of
                             LIMIT \<Rightarrow>
                               c_start_tracking_limit_order s1 market_symbol_pair order_id
                                 False price' amount'
                           | MARKET \<Rightarrow>
                               c_start_tracking_market_order s1 market_symbol_pair order_id
                                 False amount')
                 in (Inr order_id, s2))))"

section \<open>ArbitrageStrategy: construction\<close>

definition StrategyBase_init :: strategy where
  \<comment> \<open>\<^verbatim>\<open>StrategyBase.__init__\<close>. The clock of \<^verbatim>\<open>TimeIterator\<close>, which is not in the
      source, starts at 0 here; every tick sets it before it is read. The fields of
      the subclass are there from the start and are set by its constructor.\<close>
  "StrategyBase_init =
     \<lparr>current_timestamp = 0, sb_markets = {}, sb_limit_order_min_expiration = 130,
      sb_delegate_lock = False, sb_order_tracker = OrderTracker,
      logging_options = 0, market_pairs = [], min_profitability = 0,
      all_markets_ready = False, status_report_interval = 0, last_timestamp = 0,
      next_trade_delay = 0, last_trade_timestamps = Map.empty,
      add_listener_calls = [], orders_submitted = []\<rparr>"

definition all_markets :: "arbitrage_market_pair list \<Rightarrow> market list" where
  \<comment> \<open>\<^verbatim>\<open>list(all_markets)\<close> of a set comprehension: every market once. Python fixes no
      order for it; the model takes the order of first occurrence.\<close>
  "all_markets pairs =
     remdups (concat (map (\<lambda>market_pair. [market (first market_pair),
                                            market (second market_pair)]) pairs))"

definition ArbitrageStrategy_init ::
  "arbitrage_market_pair list \<Rightarrow> real \<Rightarrow> int \<Rightarrow> real \<Rightarrow> real \<Rightarrow> error + strategy" where
  "ArbitrageStrategy_init market_pairs' min_profitability' logging_options'
       status_report_interval' next_trade_delay_interval =
     (if int (length market_pairs') < 0 then Inl ValueError
      else
        Inr (c_add_markets
               (StrategyBase_init
                  \<lparr>logging_options := logging_options',
                   market_pairs := market_pairs',
                   min_profitability := min_profitability',
                   all_markets_ready := False,
                   status_report_interval := status_report_interval',
                   last_timestamp := 0,
                   next_trade_delay := next_trade_delay_interval,
                   last_trade_timestamps := Map.empty\<rparr>)
               (all_markets market_pairs')))"

section \<open>The matching loop of \<^verbatim>\<open>c_find_profitable_arbitrage_orders\<close>\<close>

text \<open>
  An order book row has a price and an amount; \<^verbatim>\<open>bid_entries()\<close> and \<^verbatim>\<open>ask_entries()\<close>
  are iterators over the rows of one side, best price first. An iterator over a
  finite book is the list of the rows it has not yet given out: \<^verbatim>\<open>next\<close> takes the
  head, and raises \<^verbatim>\<open>StopIteration\<close> on the empty list.
\<close>

record order_book_row =
  row_price :: real
  row_amount :: real

record order_book =
  bid_entries :: "order_book_row list"
  ask_entries :: "order_book_row list"

text \<open>
  The leftovers are C doubles, and a subtraction of doubles rounds: the result is
  the double nearest to the exact difference, the one with the even significand on a
  tie. A double has a significand of 53 bits; the exponent range is taken as
  unbounded, since the difference of two doubles neither overflows nor underflows
  (where it is subnormal it is exact). The amounts of the rows, the comparisons and
  the minimum of two doubles are exact.
\<close>

definition round_half_even :: "real \<Rightarrow> int" where
  "round_half_even x =
     (let f = \<lfloor>x\<rfloor>; d = x - of_int f
      in if d < 1 / 2 then f else if d > 1 / 2 then f + 1
         else if even f then f else f + 1)"

definition round_double :: "real \<Rightarrow> real" where
  "round_double x =
     (if x = 0 then 0
      else let e = \<lfloor>log 2 \<bar>x\<bar>\<rfloor> - 52
           in of_int (round_half_even (x / 2 powi e)) * 2 powi e)"

definition double_sub :: "real \<Rightarrow> real \<Rightarrow> real" where
  "double_sub x y = round_double (x - y)"

lemma round_half_even_of_int: "round_half_even (of_int m) = m"
  by (simp add: round_half_even_def)

lemma round_half_even_nonneg: "0 \<le> x \<Longrightarrow> 0 \<le> round_half_even x"
  by (simp add: round_half_even_def Let_def)

lemma round_double_nonneg: "0 \<le> x \<Longrightarrow> 0 \<le> round_double x"
  by (simp add: round_double_def Let_def round_half_even_nonneg)

lemma double_sub_self: "double_sub x x = 0"
  by (simp add: double_sub_def round_double_def)

lemma double_sub_nonneg: "y \<le> x \<Longrightarrow> 0 \<le> double_sub x y"
  by (simp add: double_sub_def round_double_nonneg)

lemma floor_log2_powi:
  assumes "0 < a"
  shows "\<lfloor>log 2 a\<rfloor> = e \<longleftrightarrow> 2 powi e \<le> a \<and> a < 2 powi (e + 1)"
proof -
  have "(2::real) powr (real_of_int e + 1) = 2 powr (real_of_int (e + 1))"
    by simp
  also have "\<dots> = 2 powi (e + 1)"
    by (rule powr_real_of_int') simp_all
  finally have up: "(2::real) powr (real_of_int e + 1) = 2 powi (e + 1)" .
  have lo: "(2::real) powr (real_of_int e) = 2 powi e"
    by (rule powr_real_of_int') simp_all
  have "\<lfloor>log 2 a\<rfloor> = e \<longleftrightarrow> 2 powr (real_of_int e) \<le> a \<and> a < 2 powr (real_of_int e + 1)"
    using floor_log_eq_powr_iff [of a 2 e] assms by simp
  then show ?thesis
    unfolding up lo .
qed

lemma round_double_at:
  assumes "2 powi e \<le> \<bar>x\<bar>" and "\<bar>x\<bar> < 2 powi (e + 1)"
  shows "round_double x = of_int (round_half_even (x / 2 powi (e - 52))) * 2 powi (e - 52)"
proof -
  have pos: "0 < \<bar>x\<bar>"
    using assms(1) by (smt (verit) zero_less_power_int)
  have "\<lfloor>log 2 \<bar>x\<bar>\<rfloor> = e"
    using assms by (simp add: floor_log2_powi [OF pos])
  then show ?thesis
    using pos by (simp add: round_double_def Let_def)
qed

lemma round_double_exact:
  assumes "\<bar>n\<bar> < 2 ^ 53"
  shows "round_double (of_int n * 2 powi k) = of_int n * 2 powi k"
proof (cases "n = 0")
  case True
  then show ?thesis by (simp add: round_double_def)
next
  case False
  let ?x = "of_int n * (2::real) powi k"
  define e where "e = \<lfloor>log 2 \<bar>?x\<bar>\<rfloor>"
  have pos: "0 < \<bar>?x\<bar>" using False by simp
  have lo: "2 powi e \<le> \<bar>?x\<bar>" and hi: "\<bar>?x\<bar> < 2 powi (e + 1)"
    using floor_log2_powi [OF pos, of e] by (simp_all add: e_def)
  have "\<bar>?x\<bar> = of_int \<bar>n\<bar> * 2 powi k"
    by (simp add: abs_mult)
  also have "\<dots> < 2 ^ 53 * 2 powi k"
  proof -
    have "(of_int \<bar>n\<bar> :: real) < 2 ^ 53"
      using assms by (metis of_int_less_numeral_power_cancel_iff)
    then show ?thesis by simp
  qed
  also have "\<dots> = 2 powi (53 + k)"
    by (simp add: power_int_add)
  finally have "(2::real) powi e < 2 powi (53 + k)"
    using lo by simp
  then have "e < 53 + k"
    using power_int_increasing [of "53 + k" e "2::real"] by linarith
  define j where "j = nat (k - (e - 52))"
  have j: "k = e - 52 + int j"
    using \<open>e < 53 + k\<close> by (simp add: j_def)
  have "?x / 2 powi (e - 52) = of_int n * 2 powi (int j)"
    by (simp add: j power_int_add)
  also have "\<dots> = of_int (n * 2 ^ j)"
    by simp
  finally have q: "?x / 2 powi (e - 52) = of_int (n * 2 ^ j)" .
  have "round_double ?x = of_int (n * 2 ^ j) * 2 powi (e - 52)"
    by (simp only: round_double_at [OF lo hi] q round_half_even_of_int)
  also have "\<dots> = ?x"
    by (simp add: j power_int_add)
  finally show ?thesis .
qed


text \<open>
  A step is the tuple the loop appends: (bid price adjusted, ask price adjusted,
  bid price, ask price, step amount).
\<close>

type_synonym profitable_order = "real \<times> real \<times> real \<times> real \<times> real"

definition step_bid_price_adjusted :: "profitable_order \<Rightarrow> real" where
  "step_bid_price_adjusted t = (case t of (ba, aa, b, a, amt) \<Rightarrow> ba)"

definition step_ask_price_adjusted :: "profitable_order \<Rightarrow> real" where
  "step_ask_price_adjusted t = (case t of (ba, aa, b, a, amt) \<Rightarrow> aa)"

definition step_amount :: "profitable_order \<Rightarrow> real" where
  "step_amount t = (case t of (ba, aa, b, a, amt) \<Rightarrow> amt)"

text \<open>The local variables of the loop.\<close>

record loop_state =
  bid_it :: "order_book_row list"
  ask_it :: "order_book_row list"
  bid_leftover_amount :: real
  ask_leftover_amount :: real
  current_bid :: "order_book_row option"
  current_ask :: "order_book_row option"
  profitable_orders :: "profitable_order list"

text \<open>
  The \<^verbatim>\<open>if\<close>/\<^verbatim>\<open>elif\<close> chain at the head of the loop body: it advances the iterators
  (\<open>Advanced\<close>), runs into \<^verbatim>\<open>StopIteration\<close>, or takes the \<^verbatim>\<open>else\<close> branch with its
  \<^verbatim>\<open>break\<close> (\<open>NegativeLeftover\<close>).
\<close>

datatype advance = Advanced loop_state | StopIteration | NegativeLeftover

definition advance_iterators :: "loop_state \<Rightarrow> advance" where
  "advance_iterators st =
     (if bid_leftover_amount st = 0 \<and> ask_leftover_amount st = 0 then
        (case bid_it st of
           [] \<Rightarrow> StopIteration
         | b # bids \<Rightarrow>
             (case ask_it st of
                [] \<Rightarrow> StopIteration
              | a # asks \<Rightarrow>
                  Advanced (st\<lparr>bid_it := bids, ask_it := asks,
                                current_bid := Some b, current_ask := Some a,
                                ask_leftover_amount := row_amount a,
                                bid_leftover_amount := row_amount b\<rparr>)))
      else if bid_leftover_amount st > 0 \<and> ask_leftover_amount st = 0 then
        (case ask_it st of
           [] \<Rightarrow> StopIteration
         | a # asks \<Rightarrow>
             Advanced (st\<lparr>ask_it := asks, current_ask := Some a,
                           ask_leftover_amount := row_amount a\<rparr>))
      else if ask_leftover_amount st > 0 \<and> bid_leftover_amount st = 0 then
        (case bid_it st of
           [] \<Rightarrow> StopIteration
         | b # bids \<Rightarrow>
             Advanced (st\<lparr>bid_it := bids, current_bid := Some b,
                           bid_leftover_amount := row_amount b\<rparr>))
      else if bid_leftover_amount st > 0 \<and> ask_leftover_amount st > 0 then Advanced st
      else NegativeLeftover)"

text \<open>
  One pass through the loop body: it goes round again with new locals (\<open>Continue\<close>),
  leaves the loop and returns the list (\<open>Return\<close>), or raises. The rate normaliser
  \<^verbatim>\<open>ExchangeRateConversion.get_instance().adjust_token_rate\<close> is a parameter. The
  division of two C doubles raises \<^verbatim>\<open>ZeroDivisionError\<close> on a zero divisor; it is
  evaluated only when \<^verbatim>\<open>min_profitability < 0\<close>.
\<close>

datatype loop_result = Continue loop_state | Return "profitable_order list" | Raise error

definition loop_body ::
  "(string \<Rightarrow> real \<Rightarrow> real) \<Rightarrow> real \<Rightarrow> string \<Rightarrow> string \<Rightarrow> loop_state \<Rightarrow> loop_result" where
  "loop_body adjust_token_rate min_profitability' buy_market_quote_asset
       sell_market_quote_asset st =
     (case advance_iterators st of
        StopIteration \<Rightarrow> Return (profitable_orders st)
      | NegativeLeftover \<Rightarrow> Return (profitable_orders st)
      | Advanced st1 \<Rightarrow>
          (case (current_bid st1, current_ask st1) of
             (Some b, Some a) \<Rightarrow>
               let current_bid_price_adjusted =
                     adjust_token_rate sell_market_quote_asset (row_price b);
                   current_ask_price_adjusted =
                     adjust_token_rate buy_market_quote_asset (row_price a)
               in if current_bid_price_adjusted < current_ask_price_adjusted
                    then Return (profitable_orders st1)
                  else if min_profitability' < 0 \<and> current_ask_price_adjusted = 0
                    then Raise ZeroDivisionError
                  else if min_profitability' < 0
                          \<and> current_bid_price_adjusted / current_ask_price_adjusted
                              < 1 + min_profitability'
                    then Return (profitable_orders st1)
                  else
                    let step_amount' =
                          min (bid_leftover_amount st1) (ask_leftover_amount st1)
                    in Continue
                         (st1\<lparr>profitable_orders :=
                                 profitable_orders st1 @
                                   [(current_bid_price_adjusted, current_ask_price_adjusted,
                                     row_price b, row_price a, step_amount')],
                               ask_leftover_amount :=
                                 double_sub (ask_leftover_amount st1) step_amount',
                               bid_leftover_amount :=
                                 double_sub (bid_leftover_amount st1) step_amount'\<rparr>)
           | _ \<Rightarrow> Raise AttributeError))"

text \<open>
  The measure of the loop: each pass either takes a row from an iterator, or starts
  with both leftovers positive and ends with one of them zero.
\<close>

definition loop_measure :: "loop_state \<Rightarrow> nat" where
  "loop_measure st =
     2 * (length (bid_it st) + length (ask_it st))
       + (if bid_leftover_amount st > 0 \<and> ask_leftover_amount st > 0 then 1 else 0)"

lemma advance_iterators_measure:
  assumes "advance_iterators st = Advanced st1"
  shows "2 * (length (bid_it st1) + length (ask_it st1)) < loop_measure st"
  using assms
  by (auto simp: advance_iterators_def loop_measure_def split: if_splits list.splits)

lemma loop_body_one_leftover_zero:
  assumes "loop_body adj mp bq sq st = Continue st'"
  shows "bid_leftover_amount st' = 0 \<or> ask_leftover_amount st' = 0"
  using assms
  by (auto simp: loop_body_def Let_def min_def double_sub_self
           split: advance.splits option.splits if_splits)

lemma loop_body_iterators:
  assumes "loop_body adj mp bq sq st = Continue st'"
  shows "\<exists>st1. advance_iterators st = Advanced st1 \<and> bid_it st' = bid_it st1
               \<and> ask_it st' = ask_it st1"
  using assms
  by (auto simp: loop_body_def Let_def split: advance.splits option.splits if_splits)

lemma loop_body_measure:
  assumes "loop_body adj mp bq sq st = Continue st'"
  shows "loop_measure st' < loop_measure st"
proof -
  obtain st1 where adv: "advance_iterators st = Advanced st1"
    and its: "bid_it st' = bid_it st1" "ask_it st' = ask_it st1"
    using loop_body_iterators [OF assms] by blast
  have "\<not> (bid_leftover_amount st' > 0 \<and> ask_leftover_amount st' > 0)"
    using loop_body_one_leftover_zero [OF assms] by auto
  then have "loop_measure st' = 2 * (length (bid_it st1) + length (ask_it st1))"
    by (simp add: loop_measure_def its)
  then show ?thesis
    using advance_iterators_measure [OF adv] by simp
qed

function matching_loop ::
  "(string \<Rightarrow> real \<Rightarrow> real) \<Rightarrow> real \<Rightarrow> string \<Rightarrow> string \<Rightarrow> loop_state
   \<Rightarrow> error + profitable_order list" where
  "matching_loop adjust_token_rate min_profitability' buy_market_quote_asset
       sell_market_quote_asset st =
     (case loop_body adjust_token_rate min_profitability' buy_market_quote_asset
             sell_market_quote_asset st of
        Continue st' \<Rightarrow>
          matching_loop adjust_token_rate min_profitability' buy_market_quote_asset
            sell_market_quote_asset st'
      | Return orders \<Rightarrow> Inr orders
      | Raise e \<Rightarrow> Inl e)"
  by pat_completeness auto
termination
  by (relation "measure (\<lambda>(adj, mp, bq, sq, st). loop_measure st)")
     (auto simp: loop_body_measure)

declare matching_loop.simps [simp del]

definition c_find_profitable_arbitrage_orders ::
  "(string \<Rightarrow> real \<Rightarrow> real) \<Rightarrow> real \<Rightarrow> order_book \<Rightarrow> order_book \<Rightarrow> string \<Rightarrow> string
   \<Rightarrow> error + profitable_order list" where
  "c_find_profitable_arbitrage_orders adjust_token_rate min_profitability' buy_order_book
       sell_order_book buy_market_quote_asset sell_market_quote_asset =
     matching_loop adjust_token_rate min_profitability' buy_market_quote_asset
       sell_market_quote_asset
       \<lparr>bid_it = bid_entries sell_order_book, ask_it = ask_entries buy_order_book,
        bid_leftover_amount = 0, ask_leftover_amount = 0,
        current_bid = None, current_ask = None, profitable_orders = []\<rparr>"

section \<open>ArbitrageStrategy: the tick and the evaluation of a pair\<close>

text \<open>
  What the strategy reads from its collaborators during one tick: the markets
  (\<^verbatim>\<open>MarketBase\<close>), the properties of a \<^verbatim>\<open>MarketSymbolPair\<close> and the rate conversion.
  None of them is in the source, so they are parameters. A fee lookup and a
  quantization can raise; a quantized amount is a finite \<^verbatim>\<open>Decimal\<close>.
\<close>

record trade_fee =
  percent :: real
  flat_fees :: "(string \<times> real) list"

record env =
  market_ready :: "market \<Rightarrow> bool"
  market_network_status :: "market \<Rightarrow> network_status"
  market_c_buy :: submit
  market_c_sell :: submit
  market_c_get_fee ::
    "market \<Rightarrow> string \<Rightarrow> string \<Rightarrow> order_type \<Rightarrow> trade_type \<Rightarrow> real \<Rightarrow> real
     \<Rightarrow> error + trade_fee"
  market_c_quantize_order_amount :: "market \<Rightarrow> string \<Rightarrow> real \<Rightarrow> error + real"
  msp_order_book :: "market_symbol_pair \<Rightarrow> order_book"
  msp_quote_balance :: "market_symbol_pair \<Rightarrow> real"
  msp_base_balance :: "market_symbol_pair \<Rightarrow> real"
  erc_adjust_token_rate :: "string \<Rightarrow> real \<Rightarrow> real"
  erc_convert_token_value :: "real \<Rightarrow> string \<Rightarrow> string \<Rightarrow> real"

definition get_price :: "order_book \<Rightarrow> bool \<Rightarrow> error + real" where
  \<comment> \<open>Modelled from the spec: \<^verbatim>\<open>OrderBook.get_price\<close> is not in the source; the best ask
      (\<open>is_buy\<close>) or the best bid is the price of the first row of that side, and a
      side without rows has no price to quote.\<close>
  "get_price ob is_buy =
     (case (if is_buy then ask_entries ob else bid_entries ob) of
        [] \<Rightarrow> Inl EnvironmentError
      | row # _ \<Rightarrow> Inr (row_price row))"

definition c_calculate_arbitrage_top_order_profitability ::
  "env \<Rightarrow> arbitrage_market_pair \<Rightarrow> error + real \<times> real" where
  "c_calculate_arbitrage_top_order_profitability e market_pair =
     (case get_price (msp_order_book e (first market_pair)) False of
        Inl err \<Rightarrow> Inl err
      | Inr p1b \<Rightarrow>
     (case get_price (msp_order_book e (first market_pair)) True of
        Inl err \<Rightarrow> Inl err
      | Inr p1a \<Rightarrow>
     (case get_price (msp_order_book e (second market_pair)) False of
        Inl err \<Rightarrow> Inl err
      | Inr p2b \<Rightarrow>
     (case get_price (msp_order_book e (second market_pair)) True of
        Inl err \<Rightarrow> Inl err
      | Inr p2a \<Rightarrow>
          let market_1_bid_price =
                erc_adjust_token_rate e (quote_asset (first market_pair)) p1b;
              market_1_ask_price =
                erc_adjust_token_rate e (quote_asset (first market_pair)) p1a;
              market_2_bid_price =
                erc_adjust_token_rate e (quote_asset (second market_pair)) p2b;
              market_2_ask_price =
                erc_adjust_token_rate e (quote_asset (second market_pair)) p2a
          in if market_2_ask_price = 0 then Inl ZeroDivisionError
             else if market_1_ask_price = 0 then Inl ZeroDivisionError
             else Inr (market_1_bid_price / market_2_ask_price - 1,
                       market_2_bid_price / market_1_ask_price - 1)))))"

fun c_ready_for_new_orders :: "strategy \<Rightarrow> market_symbol_pair list \<Rightarrow> bool" where
  "c_ready_for_new_orders s [] = True"
| "c_ready_for_new_orders s (market_symbol_pair # market_symbol_pairs) =
     (let tracked_taker_orders' = ot_c_get_taker_orders (sb_order_tracker s);
          orders = (case tracked_taker_orders' market_symbol_pair of
                      None \<Rightarrow> [] | Some d \<Rightarrow> d)
      in if length orders > 0
            \<and> list_ex (\<lambda>order'. mo_timestamp order' - current_timestamp s
                                   < MARKET_ORDER_MAX_TRACKING_TIME)
                 (map snd orders)
           then False
         else
           let ready_to_trade_time =
                 (case last_trade_timestamps s market_symbol_pair of
                    None \<Rightarrow> 0 | Some t \<Rightarrow> t) + next_trade_delay s
           in if market_symbol_pair \<in> dom (last_trade_timestamps s)
                 \<and> ready_to_trade_time > current_timestamp s
                then False
              else c_ready_for_new_orders s market_symbol_pairs)"

text \<open>
  \<^verbatim>\<open>c_find_best_profitable_amount\<close>: the locals that live across the steps, the inner
  loops over the flat fees, and the loop over the profitable orders with its two
  \<^verbatim>\<open>break\<close>s. The divisions raise on a zero divisor, also the one in the message of
  the profitability step log, which is built only when that logging option is set.
\<close>

record sizing =
  total_bid_value :: real
  total_ask_value :: real
  total_bid_value_adjusted :: real
  total_ask_value_adjusted :: real
  total_previous_step_base_amount :: real
  best_profitable_order_amount :: real
  best_profitable_order_profitability :: real

definition total_flat_fees :: "env \<Rightarrow> string \<Rightarrow> (string \<times> real) list \<Rightarrow> real" where
  "total_flat_fees e quote fees =
     foldl (\<lambda>total (flat_fee_asset, flat_fee_amount).
              if flat_fee_asset = quote then total + flat_fee_amount
              else total + erc_convert_token_value e flat_fee_amount flat_fee_asset quote)
       0 fees"

fun sizing_loop ::
  "env \<Rightarrow> strategy \<Rightarrow> market_symbol_pair \<Rightarrow> market_symbol_pair \<Rightarrow> sizing
   \<Rightarrow> profitable_order list \<Rightarrow> error + sizing" where
  "sizing_loop e s buy_market_symbol_pair sell_market_symbol_pair loc [] = Inr loc"
| "sizing_loop e s buy_market_symbol_pair sell_market_symbol_pair loc
       ((bid_price_adjusted, ask_price_adjusted, bid_price, ask_price, amount') # rest) =
     (case market_c_get_fee e (market buy_market_symbol_pair)
             (base_asset buy_market_symbol_pair) (quote_asset buy_market_symbol_pair)
             MARKET BUY (total_previous_step_base_amount loc + amount') ask_price of
        Inl err \<Rightarrow> Inl err
      | Inr buy_fee \<Rightarrow>
     (case market_c_get_fee e (market sell_market_symbol_pair)
             (base_asset sell_market_symbol_pair) (quote_asset sell_market_symbol_pair)
             MARKET SELL (total_previous_step_base_amount loc + amount') bid_price of
        Inl err \<Rightarrow> Inl err
      | Inr sell_fee \<Rightarrow>
          let total_buy_flat_fees =
                total_flat_fees e (quote_asset buy_market_symbol_pair) (flat_fees buy_fee);
              total_sell_flat_fees =
                total_flat_fees e (quote_asset sell_market_symbol_pair) (flat_fees sell_fee);
              loc1 = loc\<lparr>total_bid_value_adjusted :=
                            total_bid_value_adjusted loc + bid_price_adjusted * amount',
                          total_ask_value_adjusted :=
                            total_ask_value_adjusted loc + ask_price_adjusted * amount'\<rparr>;
              net_sell_proceeds =
                total_bid_value_adjusted loc1 * (1 - percent sell_fee) - total_sell_flat_fees;
              net_buy_costs =
                total_ask_value_adjusted loc1 * (1 + percent buy_fee) + total_buy_flat_fees
          in if net_buy_costs = 0 then Inl ZeroDivisionError
             else
               let profitability = net_sell_proceeds / net_buy_costs;
                   loc2 = (if profitability > 1 + min_profitability s
                           then loc1\<lparr>best_profitable_order_amount :=
                                         total_previous_step_base_amount loc1 + amount',
                                       best_profitable_order_profitability := profitability\<rparr>
                           else loc1)
               in if logging_options s AND OPTION_LOG_PROFITABILITY_STEP \<noteq> 0 \<and> ask_price = 0
                    then Inl ZeroDivisionError
                  else if msp_quote_balance e buy_market_symbol_pair < net_buy_costs
                          \<or> msp_base_balance e sell_market_symbol_pair
                              < total_previous_step_base_amount loc2 + amount'
                    then
                      (if profitability < 1 + min_profitability s then Inr loc2
                       else if ask_price = 0 then Inl ZeroDivisionError
                       else if 1 + percent buy_fee = 0 then Inl ZeroDivisionError
                       else
                         let buy_market_adjusted_order_size =
                               (msp_quote_balance e buy_market_symbol_pair / ask_price
                                  - total_buy_flat_fees) / (1 + percent buy_fee)
                         in Inr (loc2\<lparr>best_profitable_order_amount :=
                                         min (msp_base_balance e sell_market_symbol_pair)
                                           buy_market_adjusted_order_size,
                                       best_profitable_order_profitability := profitability\<rparr>))
                  else
                    sizing_loop e s buy_market_symbol_pair sell_market_symbol_pair
                      (loc2\<lparr>total_bid_value := total_bid_value loc2 + bid_price * amount',
                             total_ask_value := total_ask_value loc2 + ask_price * amount',
                             total_previous_step_base_amount :=
                               total_previous_step_base_amount loc2 + amount'\<rparr>)
                      rest))"

definition c_find_best_profitable_amount ::
  "env \<Rightarrow> strategy \<Rightarrow> market_symbol_pair \<Rightarrow> market_symbol_pair \<Rightarrow> error + real \<times> real" where
  "c_find_best_profitable_amount e s buy_market_symbol_pair sell_market_symbol_pair =
     (case c_find_profitable_arbitrage_orders (erc_adjust_token_rate e) (min_profitability s)
             (msp_order_book e buy_market_symbol_pair)
             (msp_order_book e sell_market_symbol_pair)
             (quote_asset buy_market_symbol_pair) (quote_asset sell_market_symbol_pair) of
        Inl err \<Rightarrow> Inl err
      | Inr profitable_orders' \<Rightarrow>
          (case sizing_loop e s buy_market_symbol_pair sell_market_symbol_pair
                  \<lparr>total_bid_value = 0, total_ask_value = 0, total_bid_value_adjusted = 0,
                   total_ask_value_adjusted = 0, total_previous_step_base_amount = 0,
                   best_profitable_order_amount = 0,
                   best_profitable_order_profitability = 0\<rparr>
                  profitable_orders' of
             Inl err \<Rightarrow> Inl err
           | Inr loc \<Rightarrow>
               if logging_options s AND OPTION_LOG_FULL_PROFITABILITY_STEP \<noteq> 0
                  \<and> list_ex (\<lambda>t. step_ask_price_adjusted t = 0) profitable_orders'
                 then Inl ZeroDivisionError
               else Inr (best_profitable_order_amount loc,
                         best_profitable_order_profitability loc)))"

text \<open>
  \<^verbatim>\<open>format_status\<close> builds the status text, which is not modelled. Of its parts, the
  two data frames catch their own exceptions; the profitability of each configured
  pair is computed outside any \<^verbatim>\<open>try\<close>, so its exception is the one that can leave
  \<^verbatim>\<open>format_status\<close>.
\<close>

fun format_status_pairs :: "env \<Rightarrow> arbitrage_market_pair list \<Rightarrow> error + unit" where
  "format_status_pairs e [] = Inr ()"
| "format_status_pairs e (market_pair # rest) =
     (case c_calculate_arbitrage_top_order_profitability e market_pair of
        Inl err \<Rightarrow> Inl err
      | Inr _ \<Rightarrow> format_status_pairs e rest)"

definition format_status :: "env \<Rightarrow> strategy \<Rightarrow> error + unit" where
  "format_status e s = format_status_pairs e (market_pairs s)"

definition c_process_market_pair_inner ::
  "env \<Rightarrow> strategy \<Rightarrow> market_symbol_pair \<Rightarrow> market_symbol_pair \<Rightarrow> (error + unit) \<times> strategy"
  where
  "c_process_market_pair_inner e s buy_market_symbol_pair sell_market_symbol_pair =
     (case c_find_best_profitable_amount e s buy_market_symbol_pair sell_market_symbol_pair of
        Inl err \<Rightarrow> (Inl err, s)
      | Inr (best_amount, best_profitability) \<Rightarrow>
     (case market_c_quantize_order_amount e (market buy_market_symbol_pair)
             (trading_pair buy_market_symbol_pair) best_amount of
        Inl err \<Rightarrow> (Inl err, s)
      | Inr quantized_buy_amount \<Rightarrow>
     (case market_c_quantize_order_amount e (market sell_market_symbol_pair)
             (trading_pair sell_market_symbol_pair) best_amount of
        Inl err \<Rightarrow> (Inl err, s)
      | Inr quantized_sell_amount \<Rightarrow>
          let quantized_order_amount = min quantized_buy_amount quantized_sell_amount
          in if quantized_order_amount \<noteq> 0 then
               (case c_buy_with_specific_market (market_c_buy e) s buy_market_symbol_pair
                       (PyDecimal (Dec quantized_order_amount)) MARKET decimal_nan NaN of
                  (Inl err, s1) \<Rightarrow> (Inl err, s1)
                | (Inr buy_order_id, s1) \<Rightarrow>
               (case c_sell_with_specific_market (market_c_sell e) s1 sell_market_symbol_pair
                       (PyDecimal (Dec quantized_order_amount)) MARKET decimal_nan NaN of
                  (Inl err, s2) \<Rightarrow> (Inl err, s2)
                | (Inr sell_order_id, s2) \<Rightarrow>
                    let s3 = s2\<lparr>last_trade_timestamps :=
                                   (last_trade_timestamps s2)
                                     (buy_market_symbol_pair \<mapsto> current_timestamp s2)\<rparr>;
                        s4 = s3\<lparr>last_trade_timestamps :=
                                   (last_trade_timestamps s3)
                                     (sell_market_symbol_pair \<mapsto> current_timestamp s3)\<rparr>
                    in (case format_status e s4 of
                          Inl err \<Rightarrow> (Inl err, s4)
                        | Inr _ \<Rightarrow> (Inr (), s4))))
             else (Inr (), s))))"

definition c_process_market_pair ::
  "env \<Rightarrow> strategy \<Rightarrow> arbitrage_market_pair \<Rightarrow> (error + unit) \<times> strategy" where
  "c_process_market_pair e s market_pair =
     (if \<not> c_ready_for_new_orders s [first market_pair, second market_pair]
        then (Inr (), s)
      else
        (case c_calculate_arbitrage_top_order_profitability e market_pair of
           Inl err \<Rightarrow> (Inl err, s)
         | Inr (profitability_buy_2_sell_1, profitability_buy_1_sell_2) \<Rightarrow>
             if profitability_buy_1_sell_2 < min_profitability s
                \<and> profitability_buy_2_sell_1 < min_profitability s
               then (Inr (), s)
             else if profitability_buy_1_sell_2 > profitability_buy_2_sell_1
               then c_process_market_pair_inner e s (first market_pair) (second market_pair)
             else c_process_market_pair_inner e s (second market_pair) (first market_pair)))"

text \<open>
  The \<^verbatim>\<open>for\<close> loop of \<^verbatim>\<open>c_tick\<close> over the configured pairs. Neither the loop nor
  \<^verbatim>\<open>c_process_market_pair\<close> has an \<^verbatim>\<open>except\<close> clause: an exception leaves the loop.
\<close>

fun process_market_pairs ::
  "env \<Rightarrow> strategy \<Rightarrow> arbitrage_market_pair list \<Rightarrow> (error + unit) \<times> strategy" where
  "process_market_pairs e s [] = (Inr (), s)"
| "process_market_pairs e s (market_pair # rest) =
     (case c_process_market_pair e s market_pair of
        (Inl err, s1) \<Rightarrow> (Inl err, s1)
      | (Inr _, s1) \<Rightarrow> process_market_pairs e s1 rest)"

definition StrategyBase_c_tick :: "strategy \<Rightarrow> real \<Rightarrow> strategy" where
  \<comment> \<open>\<^verbatim>\<open>TimeIterator.c_tick\<close> stores the tick time; then the tracker is ticked.\<close>
  "StrategyBase_c_tick s timestamp =
     s\<lparr>current_timestamp := timestamp,
       sb_order_tracker := ot_c_tick (sb_order_tracker s) timestamp\<rparr>"

definition c_tick_try :: "env \<Rightarrow> strategy \<Rightarrow> (error + unit) \<times> strategy" where
  \<comment> \<open>The body of the \<^verbatim>\<open>try\<close> statement of \<^verbatim>\<open>c_tick\<close>.\<close>
  "c_tick_try e s =
     (let s1 = (if \<not> all_markets_ready s
                then s\<lparr>all_markets_ready := (\<forall>m \<in> sb_markets s. market_ready e m)\<rparr>
                else s)
      in if \<not> all_markets_ready s1 then (Inr (), s1)
         else if \<not> (\<forall>m \<in> sb_markets s1. market_network_status e m = CONNECTED)
           then (Inr (), s1)
         else process_market_pairs e s1 (market_pairs s1))"

definition c_tick :: "env \<Rightarrow> strategy \<Rightarrow> real \<Rightarrow> (error + unit) \<times> strategy" where
  \<comment> \<open>The floor division by the report interval comes before the \<^verbatim>\<open>try\<close>; the
      \<^verbatim>\<open>finally\<close> clause stores the tick time on every way out of the \<^verbatim>\<open>try\<close>.\<close>
  "c_tick e s timestamp =
     (let s0 = StrategyBase_c_tick s timestamp
      in if status_report_interval s0 = 0 then (Inl ZeroDivisionError, s0)
         else
           (case c_tick_try e s0 of
              (r, s1) \<Rightarrow> (r, s1\<lparr>last_timestamp := timestamp\<rparr>)))"

section \<open>A concrete setting\<close>

text \<open>
  Four markets with one row on each side of their books: \<open>A\<close> and \<open>C\<close> quote 100
  to 101, \<open>B\<close> and \<open>D\<close> quote 110 to 111, so that buying on the first and selling on
  the second of each pair is profitable. No fees, no rate conversion, ample balances.
  The quantization of market \<open>C\<close> raises; the others return the amount as it is.
\<close>

definition demo_first :: market_symbol_pair where
  "demo_first = \<lparr>market = ''A'', trading_pair = ''ETH-USD'', base_asset = ''ETH'',
                  quote_asset = ''USD''\<rparr>"

definition demo_second :: market_symbol_pair where
  "demo_second = \<lparr>market = ''B'', trading_pair = ''ETH-USD'', base_asset = ''ETH'',
                   quote_asset = ''USD''\<rparr>"

definition demo_third :: market_symbol_pair where
  "demo_third = \<lparr>market = ''C'', trading_pair = ''ETH-USD'', base_asset = ''ETH'',
                  quote_asset = ''USD''\<rparr>"

definition demo_fourth :: market_symbol_pair where
  "demo_fourth = \<lparr>market = ''D'', trading_pair = ''ETH-USD'', base_asset = ''ETH'',
                   quote_asset = ''USD''\<rparr>"

definition demo_pair_good :: arbitrage_market_pair where
  "demo_pair_good = \<lparr>first = demo_first, second = demo_second\<rparr>"

definition demo_pair_bad :: arbitrage_market_pair where
  "demo_pair_bad = \<lparr>first = demo_third, second = demo_fourth\<rparr>"

definition demo_book :: "market \<Rightarrow> order_book" where
  "demo_book m =
     (if m = ''A'' \<or> m = ''C''
      then \<lparr>bid_entries = [\<lparr>row_price = 100, row_amount = 1\<rparr>],
            ask_entries = [\<lparr>row_price = 101, row_amount = 1\<rparr>]\<rparr>
      else \<lparr>bid_entries = [\<lparr>row_price = 110, row_amount = 1\<rparr>],
            ask_entries = [\<lparr>row_price = 111, row_amount = 1\<rparr>]\<rparr>)"

definition demo_env :: env where
  "demo_env =
     \<lparr>market_ready = (\<lambda>m. True),
      market_network_status = (\<lambda>m. CONNECTED),
      market_c_buy = (\<lambda>submitted request. ''buy-1''),
      market_c_sell = (\<lambda>submitted request. ''sell-1''),
      market_c_get_fee = (\<lambda>m base quote kind side amount' price'.
                            Inr \<lparr>percent = 0, flat_fees = []\<rparr>),
      market_c_quantize_order_amount =
        (\<lambda>m symbol amount'. if m = ''C'' then Inl QuantizationError else Inr amount'),
      msp_order_book = (\<lambda>p. demo_book (market p)),
      msp_quote_balance = (\<lambda>p. 1000),
      msp_base_balance = (\<lambda>p. 1000),
      erc_adjust_token_rate = (\<lambda>asset rate. rate),
      erc_convert_token_value = (\<lambda>amount' from_currency to_currency. amount')\<rparr>"

text \<open>
  The strategy the constructor builds from a list of pairs, with the default logging
  options, report interval and trade delay, and minimum profitability 0.
\<close>

definition demo_arbitrage_strategy :: "arbitrage_market_pair list \<Rightarrow> strategy" where
  "demo_arbitrage_strategy pairs =
     (case ArbitrageStrategy_init pairs 0 OPTION_LOG_ORDER_COMPLETED 60 15 of
        Inr s \<Rightarrow> s
      | Inl err \<Rightarrow> StrategyBase_init)"

definition demo_strategy :: strategy where
  "demo_strategy = demo_arbitrage_strategy [demo_pair_good]"

lemma demo_arbitrage_strategy_fields:
  "sb_delegate_lock (demo_arbitrage_strategy pairs) = False"
  "orders_submitted (demo_arbitrage_strategy pairs) = []"
  "current_timestamp (demo_arbitrage_strategy pairs) = 0"
  "sb_limit_order_min_expiration (demo_arbitrage_strategy pairs) = 130"
  "next_trade_delay (demo_arbitrage_strategy pairs) = 15"
  "status_report_interval (demo_arbitrage_strategy pairs) = 60"
  "last_trade_timestamps (demo_arbitrage_strategy pairs) = Map.empty"
  "sb_order_tracker (demo_arbitrage_strategy pairs) = OrderTracker"
  "market_pairs (demo_arbitrage_strategy pairs) = pairs"
  "min_profitability (demo_arbitrage_strategy pairs) = 0"
  "logging_options (demo_arbitrage_strategy pairs) = 4"
  "all_markets_ready (demo_arbitrage_strategy pairs) = False"
  "sb_markets (demo_arbitrage_strategy pairs) = set (all_markets pairs)"
proof -
  have frame: "sb_delegate_lock (c_add_markets s ms) = sb_delegate_lock s
      \<and> orders_submitted (c_add_markets s ms) = orders_submitted s
      \<and> current_timestamp (c_add_markets s ms) = current_timestamp s
      \<and> sb_limit_order_min_expiration (c_add_markets s ms) = sb_limit_order_min_expiration s
      \<and> next_trade_delay (c_add_markets s ms) = next_trade_delay s
      \<and> status_report_interval (c_add_markets s ms) = status_report_interval s
      \<and> last_trade_timestamps (c_add_markets s ms) = last_trade_timestamps s
      \<and> sb_order_tracker (c_add_markets s ms) = sb_order_tracker s
      \<and> market_pairs (c_add_markets s ms) = market_pairs s
      \<and> min_profitability (c_add_markets s ms) = min_profitability s
      \<and> logging_options (c_add_markets s ms) = logging_options s
      \<and> all_markets_ready (c_add_markets s ms) = all_markets_ready s
      \<and> sb_markets (c_add_markets s ms) = sb_markets s \<union> set ms" for s ms
    by (induction ms arbitrary: s) auto
  show "sb_delegate_lock (demo_arbitrage_strategy pairs) = False"
    "orders_submitted (demo_arbitrage_strategy pairs) = []"
    "current_timestamp (demo_arbitrage_strategy pairs) = 0"
    "sb_limit_order_min_expiration (demo_arbitrage_strategy pairs) = 130"
    "next_trade_delay (demo_arbitrage_strategy pairs) = 15"
    "status_report_interval (demo_arbitrage_strategy pairs) = 60"
    "last_trade_timestamps (demo_arbitrage_strategy pairs) = Map.empty"
    "sb_order_tracker (demo_arbitrage_strategy pairs) = OrderTracker"
    "market_pairs (demo_arbitrage_strategy pairs) = pairs"
    "min_profitability (demo_arbitrage_strategy pairs) = 0"
    "logging_options (demo_arbitrage_strategy pairs) = 4"
    "all_markets_ready (demo_arbitrage_strategy pairs) = False"
    "sb_markets (demo_arbitrage_strategy pairs) = set (all_markets pairs)"
    by (simp_all add: demo_arbitrage_strategy_def ArbitrageStrategy_init_def frame
          StrategyBase_init_def OPTION_LOG_ORDER_COMPLETED_def)
qed

lemma demo_strategy_fields:
  "sb_markets demo_strategy = {''A'', ''B''}"
  "sb_delegate_lock demo_strategy = False"
  "orders_submitted demo_strategy = []"
  "current_timestamp demo_strategy = 0"
  "sb_limit_order_min_expiration demo_strategy = 130"
  "next_trade_delay demo_strategy = 15"
  "last_trade_timestamps demo_strategy = Map.empty"
  "sb_order_tracker demo_strategy = OrderTracker"
  "market_pairs demo_strategy = [demo_pair_good]"
  "min_profitability demo_strategy = 0"
  "logging_options demo_strategy = 4"
  by (auto simp: demo_strategy_def demo_arbitrage_strategy_fields all_markets_def
        demo_pair_good_def demo_first_def demo_second_def)

section \<open>Construction and market registration\<close>

lemma c_add_markets_sb_markets:
  "sb_markets (c_add_markets s markets) = sb_markets s \<union> set markets"
  by (induction markets arbitrary: s) auto

lemma c_add_markets_add_listener_calls:
  "add_listener_calls (c_add_markets s markets)
     = add_listener_calls s @ concat (map market_subscriptions markets)"
  by (induction markets arbitrary: s) auto

text \<open>
  C8. The claim: constructing the strategy with an empty list of market pairs raises.
  The guard of the constructor is \<^verbatim>\<open>len(market_pairs) < 0\<close>, which no list satisfies,
  although its message says that the list must not be empty. At the empty list the
  constructor returns a strategy, with no pair and no market.
\<close>

theorem init_accepts_empty_market_pairs:
  "\<exists>s. ArbitrageStrategy_init [] min_profitability' logging_options'
           status_report_interval' next_trade_delay_interval = Inr s
       \<and> market_pairs s = [] \<and> sb_markets s = {}"
  by (simp add: ArbitrageStrategy_init_def all_markets_def StrategyBase_init_def)

text \<open>
  C7, as the claim states it, fails: adding a market that is already in the active
  set is not a no-op. The set stays the same, but the eight \<^verbatim>\<open>c_add_listener\<close> calls
  are made again: after the second add of the same market the strategy has made
  sixteen of them.
\<close>

theorem c_add_markets_duplicate_resubscribes:
  "''binance'' \<in> sb_markets (c_add_markets StrategyBase_init [''binance''])
   \<and> c_add_markets (c_add_markets StrategyBase_init [''binance'']) [''binance'']
       \<noteq> c_add_markets StrategyBase_init [''binance'']
   \<and> length (add_listener_calls (c_add_markets StrategyBase_init [''binance''])) = 8
   \<and> length (add_listener_calls
        (c_add_markets (c_add_markets StrategyBase_init [''binance'']) [''binance''])) = 16"
proof -
  have "add_listener_calls
          (c_add_markets (c_add_markets StrategyBase_init [''binance'']) [''binance''])
       \<noteq> add_listener_calls (c_add_markets StrategyBase_init [''binance''])"
    by (simp add: market_subscriptions_def)
  then have "c_add_markets (c_add_markets StrategyBase_init [''binance'']) [''binance'']
       \<noteq> c_add_markets StrategyBase_init [''binance'']"
    by metis
  then show ?thesis
    by (simp add: market_subscriptions_def StrategyBase_init_def)
qed

text \<open>
  C7, amended: \<^verbatim>\<open>c_add_markets\<close> is idempotent on the active set, which after the
  call is the old set together with the markets of the list, so that adding the same
  markets again leaves the set as it is. The subscriptions are not guarded by the
  set: \<^verbatim>\<open>c_add_listener\<close> is called for the eight event kinds on every market of the
  list, in list order, whether the market was registered or not.
\<close>

theorem c_add_markets_set_idempotent_calls_repeated:
  "sb_markets (c_add_markets s markets) = sb_markets s \<union> set markets
   \<and> sb_markets (c_add_markets (c_add_markets s markets) markets)
       = sb_markets (c_add_markets s markets)
   \<and> add_listener_calls (c_add_markets s markets)
       = add_listener_calls s @ concat (map market_subscriptions markets)
   \<and> length (add_listener_calls (c_add_markets s markets))
       = length (add_listener_calls s) + 8 * length markets"
proof -
  have "length (concat (map market_subscriptions markets)) = 8 * length markets"
    by (induction markets) (simp_all add: market_subscriptions_def)
  then show ?thesis
    by (simp add: c_add_markets_sb_markets c_add_markets_add_listener_calls)
qed

section \<open>Guarded order placement\<close>

text \<open>
  The three guards of the two placement methods, what it means for a placed order to
  be registered with the tracker under its kind, and what it means that exactly one
  request went out to the market.
\<close>

definition placement_rejected :: "strategy \<Rightarrow> market_symbol_pair \<Rightarrow> pyobj \<Rightarrow> pyobj \<Rightarrow> bool" where
  "placement_rejected s market_symbol_pair amount' price' =
     (sb_delegate_lock s \<or> \<not> isinstance_Decimal amount' \<or> \<not> isinstance_Decimal price'
      \<or> market market_symbol_pair \<notin> sb_markets s)"

text \<open>
  Between the type check and the membership test the two arguments are converted
  with \<^verbatim>\<open>float\<close>, which raises for a signaling NaN. A placement is refused when a
  guard rejects it or a conversion raises.
\<close>

definition float_raises :: "pyobj \<Rightarrow> bool" where
  "float_raises x = isl (float_of x)"

definition placement_refused :: "strategy \<Rightarrow> market_symbol_pair \<Rightarrow> pyobj \<Rightarrow> pyobj \<Rightarrow> bool" where
  "placement_refused s market_symbol_pair amount' price' =
     (placement_rejected s market_symbol_pair amount' price'
      \<or> float_raises amount' \<or> float_raises price')"

definition tracked_as :: "order_type \<Rightarrow> strategy \<Rightarrow> market_symbol_pair \<Rightarrow> string \<Rightarrow> bool" where
  "tracked_as kind s market_symbol_pair order_id =
     (case kind of
        MARKET \<Rightarrow>
          (case tracked_taker_orders (sb_order_tracker s) market_symbol_pair of
             None \<Rightarrow> False | Some d \<Rightarrow> order_id \<in> fst ` set d)
      | LIMIT \<Rightarrow>
          (case tracked_maker_orders (sb_order_tracker s) market_symbol_pair of
             None \<Rightarrow> False | Some d \<Rightarrow> order_id \<in> fst ` set d))"

definition submitted_one ::
  "bool \<Rightarrow> submit \<Rightarrow> strategy \<Rightarrow> strategy \<Rightarrow> market_symbol_pair \<Rightarrow> order_type \<Rightarrow> string \<Rightarrow> bool" where
  "submitted_one is_buy market_c_place s s' market_symbol_pair kind order_id =
     (\<exists>request. orders_submitted s' = orders_submitted s @ [request]
        \<and> or_market request = market market_symbol_pair
        \<and> or_trading_pair request = trading_pair market_symbol_pair
        \<and> or_is_buy request = is_buy \<and> or_order_type request = kind
        \<and> order_id = market_c_place (orders_submitted s) request)"

lemma dict_set_key: "k \<in> fst ` set (dict_set d k v)"
  by (force simp: dict_set_def)

lemma float_raises_iff:
  "isinstance_Decimal x \<Longrightarrow> float_raises x \<longleftrightarrow> x = PyDecimal DecSNaN"
  by (auto simp: float_raises_def float_of_def float_of_decimal_def isinstance_Decimal_def
           split: pyobj.splits decimal.splits)

lemma buy_refused:
  assumes "placement_refused s p a pr"
  shows "\<exists>err. c_buy_with_specific_market mb s p a k pr ex = (Inl err, s)"
  using assms
  by (auto simp: placement_refused_def placement_rejected_def float_raises_def
        c_buy_with_specific_market_def Let_def split: sum.splits)

lemma sell_refused:
  assumes "placement_refused s p a pr"
  shows "\<exists>err. c_sell_with_specific_market ms s p a k pr ex = (Inl err, s)"
  using assms
  by (auto simp: placement_refused_def placement_rejected_def float_raises_def
        c_sell_with_specific_market_def Let_def split: sum.splits)

lemma buy_accepted:
  assumes "\<not> placement_refused s p a pr"
  shows "\<exists>order_id s'. c_buy_with_specific_market mb s p a k pr ex = (Inr order_id, s')
           \<and> submitted_one True mb s s' p k order_id \<and> tracked_as k s' p order_id"
proof -
  obtain na np where f: "float_of a = Inr na" "float_of pr = Inr np"
    using assms
    by (cases "float_of a"; cases "float_of pr")
       (auto simp: placement_refused_def float_raises_def)
  show ?thesis
    using assms
    by (cases k)
       (auto simp: placement_refused_def placement_rejected_def f
          c_buy_with_specific_market_def Let_def
          submitted_one_def tracked_as_def c_start_tracking_market_order_def
          c_start_tracking_limit_order_def ot_c_start_tracking_market_order_def
          ot_c_start_tracking_limit_order_def dict_set_key)
qed

lemma sell_accepted:
  assumes "\<not> placement_refused s p a pr"
  shows "\<exists>order_id s'. c_sell_with_specific_market ms s p a k pr ex = (Inr order_id, s')
           \<and> submitted_one False ms s s' p k order_id \<and> tracked_as k s' p order_id"
proof -
  obtain na np where f: "float_of a = Inr na" "float_of pr = Inr np"
    using assms
    by (cases "float_of a"; cases "float_of pr")
       (auto simp: placement_refused_def float_raises_def)
  show ?thesis
    using assms
    by (cases k)
       (auto simp: placement_refused_def placement_rejected_def f
          c_sell_with_specific_market_def Let_def
          submitted_one_def tracked_as_def c_start_tracking_market_order_def
          c_start_tracking_limit_order_def ot_c_start_tracking_market_order_def
          ot_c_start_tracking_limit_order_def dict_set_key)
qed

text \<open>
  The outcome of a placement is atomic: it fails exactly when the placement is
  refused, a failure leaves the strategy (and so the market and the tracker) as it
  was, and a success has both submitted the order and registered it under its kind.
\<close>

definition placement_atomic ::
  "bool \<Rightarrow> submit \<Rightarrow> strategy \<Rightarrow> market_symbol_pair \<Rightarrow> pyobj \<Rightarrow> order_type \<Rightarrow> pyobj
   \<Rightarrow> (error + string) \<times> strategy \<Rightarrow> bool" where
  "placement_atomic is_buy market_c_place s market_symbol_pair amount' kind price' outcome =
     (case outcome of (r, s') \<Rightarrow>
        (isl r \<longleftrightarrow> placement_refused s market_symbol_pair amount' price')
      \<and> (isl r \<longrightarrow> s' = s)
      \<and> (\<forall>order_id. r = Inr order_id \<longrightarrow>
            submitted_one is_buy market_c_place s s' market_symbol_pair kind order_id
          \<and> tracked_as kind s' market_symbol_pair order_id))"

text \<open>
  C5, as the claim states it, fails: the two methods also raise when none of the
  three guards rejects. With the lock clear, the market registered and both arguments
  \<^verbatim>\<open>Decimal\<close>s, an amount that is the signaling NaN makes \<^verbatim>\<open>float(amount)\<close> raise
  \<^verbatim>\<open>ValueError\<close>. Nothing is submitted or tracked then.
\<close>

theorem placement_fails_on_signaling_nan:
  "\<not> placement_rejected demo_strategy demo_first (PyDecimal DecSNaN) (PyDecimal (Dec 100))
   \<and> c_buy_with_specific_market (\<lambda>_ _. ''buy-1'') demo_strategy demo_first
        (PyDecimal DecSNaN) LIMIT (PyDecimal (Dec 100)) NaN = (Inl ValueError, demo_strategy)
   \<and> c_sell_with_specific_market (\<lambda>_ _. ''sell-1'') demo_strategy demo_first
        (PyDecimal DecSNaN) LIMIT (PyDecimal (Dec 100)) NaN = (Inl ValueError, demo_strategy)"
  by (simp add: placement_rejected_def demo_strategy_fields demo_first_def
        isinstance_Decimal_def c_buy_with_specific_market_def
        c_sell_with_specific_market_def float_of_def float_of_decimal_def Let_def)

text \<open>
  C5, amended: \<^verbatim>\<open>c_buy_with_specific_market\<close> and \<^verbatim>\<open>c_sell_with_specific_market\<close> raise
  exactly when the delegate lock is set, or the amount or the price is not a
  \<^verbatim>\<open>Decimal\<close>, or the market of the pair is not in the active set, or the conversion of
  the amount or of the price to a double raises (a signaling NaN). When they raise, no
  order has been submitted and no tracking entry made: the state is the one before the
  call. When they return an order id, that order has been submitted to the market of
  the pair and is tracked under the pair, as a limit or as a market order by its kind.
\<close>

theorem placement_fails_iff_refused_and_is_atomic:
  "placement_atomic True mb s p a k pr (c_buy_with_specific_market mb s p a k pr ex)
   \<and> placement_atomic False ms s p a k pr (c_sell_with_specific_market ms s p a k pr ex)"
proof (cases "placement_refused s p a pr")
  case True
  obtain e1 where b: "c_buy_with_specific_market mb s p a k pr ex = (Inl e1, s)"
    using buy_refused [OF True] by blast
  obtain e2 where sl: "c_sell_with_specific_market ms s p a k pr ex = (Inl e2, s)"
    using sell_refused [OF True] by blast
  show ?thesis
    using True by (simp add: placement_atomic_def b sl)
next
  case False
  obtain i1 s1 where b: "c_buy_with_specific_market mb s p a k pr ex = (Inr i1, s1)"
      "submitted_one True mb s s1 p k i1" "tracked_as k s1 p i1"
    using buy_accepted [OF False] by blast
  obtain i2 s2 where sl: "c_sell_with_specific_market ms s p a k pr ex = (Inr i2, s2)"
      "submitted_one False ms s s2 p k i2" "tracked_as k s2 p i2"
    using sell_accepted [OF False] by blast
  show ?thesis
    using False by (simp add: placement_atomic_def b sl)
qed

text \<open>
  C5, amended, at concrete inputs: a market buy of one unit with the default price
  succeeds and is tracked; a limit sell whose amount is a float is refused and changes
  nothing.
\<close>

theorem placement_fails_iff_refused_and_is_atomic_witness:
  "fst (c_buy_with_specific_market (\<lambda>_ _. ''buy-1'') demo_strategy demo_first
          (PyDecimal (Dec 1)) MARKET decimal_nan NaN) = Inr ''buy-1''
   \<and> tracked_as MARKET
        (snd (c_buy_with_specific_market (\<lambda>_ _. ''buy-1'') demo_strategy demo_first
           (PyDecimal (Dec 1)) MARKET decimal_nan NaN)) demo_first ''buy-1''
   \<and> isl (fst (c_sell_with_specific_market (\<lambda>_ _. ''sell-1'') demo_strategy demo_first
          (PyFloat (Some 1)) LIMIT (PyDecimal (Dec 100)) NaN))
   \<and> snd (c_sell_with_specific_market (\<lambda>_ _. ''sell-1'') demo_strategy demo_first
          (PyFloat (Some 1)) LIMIT (PyDecimal (Dec 100)) NaN) = demo_strategy"
proof -
  have ok: "\<not> placement_refused demo_strategy demo_first (PyDecimal (Dec 1)) decimal_nan"
    by (simp add: placement_refused_def placement_rejected_def float_raises_def
          float_of_def float_of_decimal_def demo_strategy_fields demo_first_def
          isinstance_Decimal_def decimal_nan_def)
  have bad: "placement_refused demo_strategy demo_first (PyFloat (Some 1)) (PyDecimal (Dec 100))"
    by (simp add: placement_refused_def placement_rejected_def isinstance_Decimal_def)
  have id: "fst (c_buy_with_specific_market (\<lambda>_ _. ''buy-1'') demo_strategy demo_first
          (PyDecimal (Dec 1)) MARKET decimal_nan NaN) = Inr ''buy-1''"
    by (simp add: c_buy_with_specific_market_def Let_def demo_strategy_fields
          demo_first_def isinstance_Decimal_def decimal_nan_def float_of_def
          float_of_decimal_def)
  show ?thesis
    using placement_fails_iff_refused_and_is_atomic
            [of "\<lambda>_ _. ''buy-1''" demo_strategy demo_first "PyDecimal (Dec 1)" MARKET
                decimal_nan NaN "\<lambda>_ _. ''sell-1''"]
          placement_fails_iff_refused_and_is_atomic
            [of "\<lambda>_ _. ''buy-1''" demo_strategy demo_first "PyFloat (Some 1)" LIMIT
                "PyDecimal (Dec 100)" NaN "\<lambda>_ _. ''sell-1''"]
          ok bad id
    by (auto simp: placement_atomic_def split: prod.splits)
qed

text \<open>
  C10, as the claim states it, fails in one part: with the price omitted, an amount
  that is a \<^verbatim>\<open>Decimal\<close> is not enough for the call to succeed. With the lock clear and
  the market registered, the amount \<^verbatim>\<open>Decimal("sNaN")\<close> passes the type check and then
  makes \<^verbatim>\<open>float(amount)\<close> raise \<^verbatim>\<open>ValueError\<close>.
\<close>

theorem market_order_signaling_nan_amount_fails:
  "isinstance_Decimal (PyDecimal DecSNaN)
   \<and> \<not> sb_delegate_lock demo_strategy
   \<and> market demo_first \<in> sb_markets demo_strategy
   \<and> fst (c_buy_with_specific_market (\<lambda>_ _. ''buy-1'') demo_strategy demo_first
        (PyDecimal DecSNaN) MARKET decimal_nan NaN) = Inl ValueError
   \<and> fst (c_sell_with_specific_market (\<lambda>_ _. ''sell-1'') demo_strategy demo_first
        (PyDecimal DecSNaN) MARKET decimal_nan NaN) = Inl ValueError"
  by (simp add: demo_strategy_fields demo_first_def isinstance_Decimal_def decimal_nan_def
        c_buy_with_specific_market_def c_sell_with_specific_market_def float_of_def
        float_of_decimal_def Let_def)

text \<open>
  C10, amended: the default price \<^verbatim>\<open>decimal_nan\<close> is a \<^verbatim>\<open>Decimal\<close> and converts to a
  double without raising, so a market order placed without a price always passes the
  decimal validation of its price, and omitting the price never causes the placement
  to be rejected. Such an order raises \<^verbatim>\<open>TypeError\<close> exactly when the lock is clear and
  the amount is not a \<^verbatim>\<open>Decimal\<close>, and it succeeds exactly when the lock is clear, the
  amount is a \<^verbatim>\<open>Decimal\<close> other than the signaling NaN, and the market is registered.
\<close>

theorem market_order_default_price_never_rejects:
  "isinstance_Decimal decimal_nan \<and> float_of decimal_nan = Inr NaN
   \<and> (fst (c_buy_with_specific_market mb s p a MARKET decimal_nan ex) = Inl TypeError
        \<longleftrightarrow> \<not> sb_delegate_lock s \<and> \<not> isinstance_Decimal a)
   \<and> (fst (c_sell_with_specific_market ms s p a MARKET decimal_nan ex) = Inl TypeError
        \<longleftrightarrow> \<not> sb_delegate_lock s \<and> \<not> isinstance_Decimal a)
   \<and> (\<not> isl (fst (c_buy_with_specific_market mb s p a MARKET decimal_nan ex))
        \<longleftrightarrow> \<not> sb_delegate_lock s \<and> isinstance_Decimal a \<and> a \<noteq> PyDecimal DecSNaN
            \<and> market p \<in> sb_markets s)
   \<and> (\<not> isl (fst (c_sell_with_specific_market ms s p a MARKET decimal_nan ex))
        \<longleftrightarrow> \<not> sb_delegate_lock s \<and> isinstance_Decimal a \<and> a \<noteq> PyDecimal DecSNaN
            \<and> market p \<in> sb_markets s)"
  by (auto simp: c_buy_with_specific_market_def c_sell_with_specific_market_def Let_def
        isinstance_Decimal_def decimal_nan_def NaN_def float_of_def float_of_decimal_def
      split: pyobj.splits decimal.splits)

text \<open>
  C10, amended, at a concrete input: a buy and a sell of one unit with the default
  price.
\<close>

theorem market_order_default_price_never_rejects_witness:
  "\<not> isl (fst (c_buy_with_specific_market (\<lambda>_ _. ''buy-1'') demo_strategy demo_first
          (PyDecimal (Dec 1)) MARKET decimal_nan NaN))
   \<and> \<not> isl (fst (c_sell_with_specific_market (\<lambda>_ _. ''sell-1'') demo_strategy demo_first
          (PyDecimal (Dec 1)) MARKET decimal_nan NaN))"
  using market_order_default_price_never_rejects
          [of "\<lambda>_ _. ''buy-1''" demo_strategy demo_first "PyDecimal (Dec 1)" NaN
              "\<lambda>_ _. ''sell-1''"]
  by (simp add: demo_strategy_fields demo_first_def isinstance_Decimal_def)

section \<open>The readiness gate\<close>

text \<open>
  A strategy at time 1000 that tracks one market order for the first leg, created at
  time 0, and has no cooldown entry.
\<close>

definition stale_order_strategy :: strategy where
  "stale_order_strategy =
     StrategyBase_init
       \<lparr>current_timestamp := 1000, next_trade_delay := 15,
        sb_order_tracker :=
          ot_c_tick
            (ot_c_start_tracking_market_order OrderTracker demo_first ''buy-1'' True
               (PyDecimal (Dec 1)))
            1000\<rparr>"

text \<open>
  C1. The claim: the pair is blocked by a tracked market order only while current
  time minus creation time is below 600 seconds, as the comment in the source says
  (an order that old counts as completed). The source compares
  \<^verbatim>\<open>order.timestamp - self._current_timestamp\<close> with the horizon, the operands exchanged:
  the difference is negative for every order of the past, so any tracked market order
  blocks. Here the order is 1000 seconds old, there is no cooldown, and the pair is
  not ready.
\<close>

theorem stale_market_order_still_blocks:
  "c_ready_for_new_orders stale_order_strategy [demo_first, demo_second] = False
   \<and> map (\<lambda>(order_id, order'). current_timestamp stale_order_strategy - mo_timestamp order')
        (the (ot_c_get_taker_orders (sb_order_tracker stale_order_strategy) demo_first))
       = [1000]
   \<and> ot_c_get_taker_orders (sb_order_tracker stale_order_strategy) demo_second = None
   \<and> last_trade_timestamps stale_order_strategy = Map.empty
   \<and> MARKET_ORDER_MAX_TRACKING_TIME = 600"
  by (simp add: stale_order_strategy_def StrategyBase_init_def OrderTracker_def
        ot_c_tick_def ot_c_start_tracking_market_order_def ot_c_get_taker_orders_def
        dict_set_def demo_first_def demo_second_def MARKET_ORDER_MAX_TRACKING_TIME_def)


section \<open>Dispatch of a pair\<close>

text \<open>
  The request that a market order with the default price and expiration sends to the
  market: the amount as a double, no price (NaN), and the minimum expiration.
\<close>

definition market_order_request ::
  "bool \<Rightarrow> strategy \<Rightarrow> market_symbol_pair \<Rightarrow> real \<Rightarrow> order_request" where
  "market_order_request is_buy s market_symbol_pair quantity =
     \<lparr>or_market = market market_symbol_pair, or_is_buy = is_buy,
      or_trading_pair = trading_pair market_symbol_pair,
      or_native_amount = Some quantity, or_order_type = MARKET,
      or_native_price = None,
      or_expiration_ts = current_timestamp s + sb_limit_order_min_expiration s\<rparr>"

lemma buy_market_order:
  assumes "\<not> sb_delegate_lock s" and "market p \<in> sb_markets s"
  shows "c_buy_with_specific_market mb s p (PyDecimal (Dec q)) MARKET decimal_nan NaN =
           (Inr (mb (orders_submitted s) (market_order_request True s p q)),
            s\<lparr>orders_submitted := orders_submitted s @ [market_order_request True s p q],
              sb_order_tracker :=
                ot_c_start_tracking_market_order (sb_order_tracker s) p
                  (mb (orders_submitted s) (market_order_request True s p q)) True
                  (PyDecimal (Dec q))\<rparr>)"
  using assms
  by (simp add: c_buy_with_specific_market_def Let_def isinstance_Decimal_def
        decimal_nan_def NaN_def double_max_def float_of_def float_of_decimal_def
        market_order_request_def c_start_tracking_market_order_def)

lemma sell_market_order:
  assumes "\<not> sb_delegate_lock s" and "market p \<in> sb_markets s"
  shows "c_sell_with_specific_market ms s p (PyDecimal (Dec q)) MARKET decimal_nan NaN =
           (Inr (ms (orders_submitted s) (market_order_request False s p q)),
            s\<lparr>orders_submitted := orders_submitted s @ [market_order_request False s p q],
              sb_order_tracker :=
                ot_c_start_tracking_market_order (sb_order_tracker s) p
                  (ms (orders_submitted s) (market_order_request False s p q)) False
                  (PyDecimal (Dec q))\<rparr>)"
  using assms
  by (simp add: c_sell_with_specific_market_def Let_def isinstance_Decimal_def
        decimal_nan_def NaN_def double_max_def float_of_def float_of_decimal_def
        market_order_request_def c_start_tracking_market_order_def)






lemma inner_dispatches:
  assumes best: "c_find_best_profitable_amount e s b sl = Inr (raw, prof)"
    and qb: "market_c_quantize_order_amount e (market b) (trading_pair b) raw = Inr qb"
    and qs: "market_c_quantize_order_amount e (market sl) (trading_pair sl) raw = Inr qs"
    and nz: "min qb qs \<noteq> 0"
    and lock: "\<not> sb_delegate_lock s"
    and mb: "market b \<in> sb_markets s" and ms: "market sl \<in> sb_markets s"
  shows "orders_submitted (snd (c_process_market_pair_inner e s b sl))
           = orders_submitted s @ [market_order_request True s b (min qb qs),
                                   market_order_request False s sl (min qb qs)]
       \<and> last_trade_timestamps (snd (c_process_market_pair_inner e s b sl))
           = (last_trade_timestamps s)
               (b \<mapsto> current_timestamp s, sl \<mapsto> current_timestamp s)"
proof -
  let ?q = "min qb qs"
  let ?i1 = "market_c_buy e (orders_submitted s) (market_order_request True s b ?q)"
  let ?s1 = "s\<lparr>orders_submitted := orders_submitted s @ [market_order_request True s b ?q],
               sb_order_tracker :=
                 ot_c_start_tracking_market_order (sb_order_tracker s) b ?i1 True
                   (PyDecimal (Dec ?q))\<rparr>"
  have buy: "c_buy_with_specific_market (market_c_buy e) s b (PyDecimal (Dec ?q)) MARKET
               decimal_nan NaN = (Inr ?i1, ?s1)"
    by (rule buy_market_order [OF lock mb])
  have lock1: "\<not> sb_delegate_lock ?s1" and ms1: "market sl \<in> sb_markets ?s1"
    using lock ms by simp_all
  note sell = sell_market_order [OF lock1 ms1, of "market_c_sell e" ?q]
  have req: "market_order_request False ?s1 sl ?q = market_order_request False s sl ?q"
    by (simp add: market_order_request_def)
  show ?thesis
    using nz
    by (simp add: c_process_market_pair_inner_def best qb qs buy sell req Let_def
          split: sum.splits)
qed

lemma inner_zero_amount:
  assumes best: "c_find_best_profitable_amount e s b sl = Inr (raw, prof)"
    and qb: "market_c_quantize_order_amount e (market b) (trading_pair b) raw = Inr qb"
    and qs: "market_c_quantize_order_amount e (market sl) (trading_pair sl) raw = Inr qs"
    and z: "min qb qs = 0"
  shows "c_process_market_pair_inner e s b sl = (Inr (), s)"
  using z by (simp add: c_process_market_pair_inner_def best qb qs)

text \<open>The concrete setting, evaluated.\<close>

lemma demo_matching:
  "c_find_profitable_arbitrage_orders (\<lambda>asset rate. rate) 0 (demo_book ''A'')
     (demo_book ''B'') q1 q2 = Inr [(110, 101, 110, 101, 1)]"
  by (simp add: c_find_profitable_arbitrage_orders_def demo_book_def matching_loop.simps
        loop_body_def advance_iterators_def Let_def double_sub_self)

lemma demo_book_eq: "demo_book ''C'' = demo_book ''A''" "demo_book ''D'' = demo_book ''B''"
  by (simp_all add: demo_book_def)

lemma demo_best:
  assumes "min_profitability s = 0" and "logging_options s = 4"
    and "market b = ''A'' \<or> market b = ''C''" and "market sl = ''B'' \<or> market sl = ''D''"
  shows "c_find_best_profitable_amount demo_env s b sl = Inr (1, 110 / 101)"
  using assms
  by (auto simp: c_find_best_profitable_amount_def demo_env_def demo_book_eq
        demo_matching total_flat_fees_def
        OPTION_LOG_PROFITABILITY_STEP_def OPTION_LOG_FULL_PROFITABILITY_STEP_def Let_def)

lemma demo_top_of_book:
  assumes "market (first p) = ''A'' \<or> market (first p) = ''C''"
    and "market (second p) = ''B'' \<or> market (second p) = ''D''"
  shows "c_calculate_arbitrage_top_order_profitability demo_env p
           = Inr (100 / 111 - 1, 110 / 101 - 1)"
  using assms
  by (auto simp: c_calculate_arbitrage_top_order_profitability_def demo_env_def
        demo_book_def get_price_def Let_def)


text \<open>
  C3. In \<^verbatim>\<open>c_process_market_pair_inner\<close>, with the raw amount found and both
  quantizations returned, in a strategy whose lock is clear and whose markets are
  registered: the dispatched amount is the minimum of the two quantized amounts. When
  it is not zero, exactly two requests go out, a market buy on the buy leg and a market
  sell on the sell leg, both of that amount, and the tick time becomes the cooldown
  timestamp of both legs. When it is zero, nothing is placed and nothing recorded:
  the state is as before. A zero raw amount is such a case as soon as quantizing
  neither raises the amount nor makes it negative.
\<close>

theorem dispatch_is_min_of_quantized_amounts:
  assumes "c_find_best_profitable_amount e s b sl = Inr (raw, prof)"
    and "market_c_quantize_order_amount e (market b) (trading_pair b) raw = Inr qb"
    and "market_c_quantize_order_amount e (market sl) (trading_pair sl) raw = Inr qs"
    and "\<not> sb_delegate_lock s"
    and "market b \<in> sb_markets s" and "market sl \<in> sb_markets s"
  shows "(min qb qs \<noteq> 0 \<longrightarrow>
            orders_submitted (snd (c_process_market_pair_inner e s b sl))
              = orders_submitted s @ [market_order_request True s b (min qb qs),
                                      market_order_request False s sl (min qb qs)]
          \<and> last_trade_timestamps (snd (c_process_market_pair_inner e s b sl))
              = (last_trade_timestamps s)
                  (b \<mapsto> current_timestamp s, sl \<mapsto> current_timestamp s))
       \<and> (min qb qs = 0 \<longrightarrow> c_process_market_pair_inner e s b sl = (Inr (), s))
       \<and> (raw = 0 \<and> 0 \<le> qb \<and> qb \<le> raw \<and> 0 \<le> qs \<and> qs \<le> raw \<longrightarrow>
            c_process_market_pair_inner e s b sl = (Inr (), s))"
proof -
  have "min qb qs = 0" if "raw = 0" "0 \<le> qb" "qb \<le> raw" "0 \<le> qs" "qs \<le> raw"
    using that by simp
  then show ?thesis
    using inner_dispatches [OF assms(1-3) _ assms(4-6)] inner_zero_amount [OF assms(1-3)]
    by blast
qed

text \<open>C3 in the concrete setting: one unit is bought on \<open>A\<close> and sold on \<open>B\<close>.\<close>

theorem dispatch_is_min_of_quantized_amounts_witness:
  "orders_submitted
     (snd (c_process_market_pair_inner demo_env demo_strategy demo_first demo_second))
     = [market_order_request True demo_strategy demo_first 1,
        market_order_request False demo_strategy demo_second 1]
   \<and> last_trade_timestamps
       (snd (c_process_market_pair_inner demo_env demo_strategy demo_first demo_second))
     = [demo_first \<mapsto> 0, demo_second \<mapsto> 0]"
proof -
  have best: "c_find_best_profitable_amount demo_env demo_strategy demo_first demo_second
      = Inr (1, 110 / 101)"
    by (rule demo_best) (simp_all add: demo_strategy_fields demo_first_def demo_second_def)
  have qb: "market_c_quantize_order_amount demo_env (market demo_first)
      (trading_pair demo_first) 1 = Inr 1"
    by (simp add: demo_env_def demo_first_def)
  have qs: "market_c_quantize_order_amount demo_env (market demo_second)
      (trading_pair demo_second) 1 = Inr 1"
    by (simp add: demo_env_def demo_second_def)
  have lock: "\<not> sb_delegate_lock demo_strategy"
    and mb: "market demo_first \<in> sb_markets demo_strategy"
    and ms: "market demo_second \<in> sb_markets demo_strategy"
    by (simp_all add: demo_strategy_fields demo_first_def demo_second_def)
  show ?thesis
    using dispatch_is_min_of_quantized_amounts [OF best qb qs lock mb ms]
    by (simp add: demo_strategy_fields)
qed




section \<open>Errors during a tick\<close>

lemma process_market_pairs_append_error:
  assumes "process_market_pairs e s done = (Inr u, s1)"
    and "c_process_market_pair e s1 p = (Inl err, s2)"
  shows "process_market_pairs e s (done @ p # rest) = (Inl err, s2)"
  using assms
  by (induction "done" arbitrary: s) (auto split: prod.splits sum.splits)

lemma inner_error_before_dispatch:
  "(c_find_best_profitable_amount e s b sl = Inl err \<longrightarrow>
      c_process_market_pair_inner e s b sl = (Inl err, s))
   \<and> (c_find_best_profitable_amount e s b sl = Inr (raw, prof)
      \<and> market_c_quantize_order_amount e (market b) (trading_pair b) raw = Inl err \<longrightarrow>
      c_process_market_pair_inner e s b sl = (Inl err, s))
   \<and> (c_find_best_profitable_amount e s b sl = Inr (raw, prof)
      \<and> market_c_quantize_order_amount e (market b) (trading_pair b) raw = Inr qb
      \<and> market_c_quantize_order_amount e (market sl) (trading_pair sl) raw = Inl err \<longrightarrow>
      c_process_market_pair_inner e s b sl = (Inl err, s))"
  by (simp add: c_process_market_pair_inner_def)

lemma c_tick_reaches_loop:
  assumes "status_report_interval s \<noteq> 0"
    and "all_markets_ready s \<or> (\<forall>m \<in> sb_markets s. market_ready e m)"
    and "\<forall>m \<in> sb_markets s. market_network_status e m = CONNECTED"
  shows "c_tick e s timestamp =
           (case process_market_pairs e ((StrategyBase_c_tick s timestamp)\<lparr>all_markets_ready := True\<rparr>)
                   (market_pairs s) of
              (r, s1) \<Rightarrow> (r, s1\<lparr>last_timestamp := timestamp\<rparr>))"
proof -
  let ?s0 = "StrategyBase_c_tick s timestamp"
  have f: "status_report_interval ?s0 = status_report_interval s"
    "sb_markets ?s0 = sb_markets s" "all_markets_ready ?s0 = all_markets_ready s"
    "market_pairs ?s0 = market_pairs s"
    by (simp_all add: StrategyBase_c_tick_def)
  show ?thesis
  proof (cases "all_markets_ready s")
    case True
    then have same: "?s0\<lparr>all_markets_ready := True\<rparr> = ?s0"
      by (simp add: StrategyBase_c_tick_def)
    have "c_tick e s timestamp =
           (case process_market_pairs e ?s0 (market_pairs s) of
              (r, s1) \<Rightarrow> (r, s1\<lparr>last_timestamp := timestamp\<rparr>))"
      using assms True by (simp add: c_tick_def c_tick_try_def Let_def f)
    then show ?thesis
      by (simp only: same)
  next
    case False
    then show ?thesis
      using assms by (simp add: c_tick_def c_tick_try_def Let_def f)
  qed
qed

text \<open>
  The concrete setting after the start of the tick at time 1, with the pair whose
  quantization raises listed before the profitable pair.
\<close>

definition demo_ticked :: strategy where
  "demo_ticked =
     (StrategyBase_c_tick (demo_arbitrage_strategy [demo_pair_bad, demo_pair_good]) 1)
       \<lparr>all_markets_ready := True\<rparr>"

lemma demo_ticked_fields:
  "sb_delegate_lock demo_ticked = False"
  "orders_submitted demo_ticked = []"
  "current_timestamp demo_ticked = 1"
  "next_trade_delay demo_ticked = 15"
  "last_trade_timestamps demo_ticked = Map.empty"
  "tracked_taker_orders (sb_order_tracker demo_ticked) = Map.empty"
  "min_profitability demo_ticked = 0"
  "logging_options demo_ticked = 4"
  "sb_markets demo_ticked = {''A'', ''B'', ''C'', ''D''}"
  by (auto simp: demo_ticked_def StrategyBase_c_tick_def demo_arbitrage_strategy_fields
        ot_c_tick_def OrderTracker_def all_markets_def demo_pair_good_def demo_pair_bad_def
        demo_first_def demo_second_def demo_third_def demo_fourth_def)

lemma demo_ready:
  assumes "last_trade_timestamps s = Map.empty"
    and "tracked_taker_orders (sb_order_tracker s) = Map.empty"
  shows "c_ready_for_new_orders s ps"
  using assms by (induction ps) (simp_all add: ot_c_get_taker_orders_def)

lemma demo_bad_pair_raises:
  "c_process_market_pair demo_env demo_ticked demo_pair_bad
     = (Inl QuantizationError, demo_ticked)"
proof -
  have best: "c_find_best_profitable_amount demo_env demo_ticked demo_third demo_fourth
      = Inr (1, 110 / 101)"
    by (rule demo_best) (simp_all add: demo_ticked_fields demo_third_def demo_fourth_def)
  have inner: "c_process_market_pair_inner demo_env demo_ticked demo_third demo_fourth
      = (Inl QuantizationError, demo_ticked)"
    by (simp add: c_process_market_pair_inner_def best)
       (simp add: demo_env_def demo_third_def)
  have top: "c_calculate_arbitrage_top_order_profitability demo_env demo_pair_bad
      = Inr (100 / 111 - 1, 110 / 101 - 1)"
    by (rule demo_top_of_book)
       (simp_all add: demo_pair_bad_def demo_third_def demo_fourth_def)
  have legs: "first demo_pair_bad = demo_third" "second demo_pair_bad = demo_fourth"
    by (simp_all add: demo_pair_bad_def)
  have ready: "c_ready_for_new_orders demo_ticked [demo_third, demo_fourth]"
    by (rule demo_ready) (simp_all add: demo_ticked_fields)
  show ?thesis
    unfolding c_process_market_pair_def legs
    by (simp add: ready top inner demo_ticked_fields del: c_ready_for_new_orders.simps)
qed

lemma demo_tick:
  "c_tick demo_env (demo_arbitrage_strategy [demo_pair_bad, demo_pair_good]) 1
     = (Inl QuantizationError, demo_ticked\<lparr>last_timestamp := 1\<rparr>)"
proof -
  have "c_tick demo_env (demo_arbitrage_strategy [demo_pair_bad, demo_pair_good]) 1 =
      (case process_market_pairs demo_env demo_ticked [demo_pair_bad, demo_pair_good] of
         (r, s1) \<Rightarrow> (r, s1\<lparr>last_timestamp := 1\<rparr>))"
    unfolding demo_ticked_def
    by (subst c_tick_reaches_loop)
       (simp_all add: demo_arbitrage_strategy_fields demo_env_def)
  then show ?thesis
    by (simp add: demo_bad_pair_raises)
qed

lemma demo_good_pair_dispatches:
  "length (orders_submitted
     (snd (c_process_market_pair demo_env (demo_ticked\<lparr>last_timestamp := 1\<rparr>)
             demo_pair_good))) = 2"
proof -
  let ?s = "demo_ticked\<lparr>last_timestamp := 1\<rparr>"
  have best: "c_find_best_profitable_amount demo_env ?s demo_first demo_second
      = Inr (1, 110 / 101)"
    by (rule demo_best) (simp_all add: demo_ticked_fields demo_first_def demo_second_def)
  have qb: "market_c_quantize_order_amount demo_env (market demo_first)
      (trading_pair demo_first) 1 = Inr 1"
    by (simp add: demo_env_def demo_first_def)
  have qs: "market_c_quantize_order_amount demo_env (market demo_second)
      (trading_pair demo_second) 1 = Inr 1"
    by (simp add: demo_env_def demo_second_def)
  have top: "c_calculate_arbitrage_top_order_profitability demo_env demo_pair_good
      = Inr (100 / 111 - 1, 110 / 101 - 1)"
    by (rule demo_top_of_book)
       (simp_all add: demo_pair_good_def demo_first_def demo_second_def)
  have "orders_submitted (snd (c_process_market_pair_inner demo_env ?s demo_first demo_second))
      = orders_submitted ?s @ [market_order_request True ?s demo_first (min 1 1),
                               market_order_request False ?s demo_second (min 1 1)]"
    using inner_dispatches [OF best qb qs]
    by (simp add: demo_ticked_fields demo_first_def demo_second_def)
  then have inner: "length (orders_submitted
      (snd (c_process_market_pair_inner demo_env ?s demo_first demo_second))) = 2"
    by (simp add: demo_ticked_fields)
  have legs: "first demo_pair_good = demo_first" "second demo_pair_good = demo_second"
    by (simp_all add: demo_pair_good_def)
  have ready: "c_ready_for_new_orders ?s [demo_first, demo_second]"
    by (rule demo_ready) (simp_all add: demo_ticked_fields)
  show ?thesis
    unfolding c_process_market_pair_def legs
    by (simp add: ready top inner demo_ticked_fields del: c_ready_for_new_orders.simps)
qed

text \<open>
  C4, as the claim states it, fails. With the failing pair listed first, the tick ends
  with the quantization error of that pair; the pair listed after it has not been
  evaluated: no order has been submitted, although evaluating that pair in the state
  the tick left would submit its two orders.
\<close>

theorem pair_error_skips_later_pairs:
  "fst (c_tick demo_env (demo_arbitrage_strategy [demo_pair_bad, demo_pair_good]) 1)
     = Inl QuantizationError
   \<and> orders_submitted
       (snd (c_tick demo_env (demo_arbitrage_strategy [demo_pair_bad, demo_pair_good]) 1))
     = []
   \<and> length (orders_submitted
       (snd (c_process_market_pair demo_env
               (snd (c_tick demo_env
                       (demo_arbitrage_strategy [demo_pair_bad, demo_pair_good]) 1))
               demo_pair_good))) = 2"
  by (simp add: demo_tick demo_good_pair_dispatches demo_ticked_fields)

text \<open>
  C4, amended: an error raised while a pair is evaluated is not caught. When the tick
  reaches the loop over the pairs, the pairs before \<open>p\<close> are evaluated without error
  and the evaluation of \<open>p\<close> raises, then \<^verbatim>\<open>c_tick\<close> raises that error, in the state
  the failed evaluation left and with the tick time stored by the \<^verbatim>\<open>finally\<close> clause;
  the pairs after \<open>p\<close> are not evaluated. An error of the sizing (a fee lookup among
  them) or of a quantization is raised before any order is placed, and leaves the
  strategy, its cooldown table and its tracker as they were.
\<close>

theorem pair_error_ends_tick:
  assumes "status_report_interval s \<noteq> 0"
    and "all_markets_ready s \<or> (\<forall>m \<in> sb_markets s. market_ready e m)"
    and "\<forall>m \<in> sb_markets s. market_network_status e m = CONNECTED"
    and "market_pairs s = done @ p # rest"
    and "process_market_pairs e ((StrategyBase_c_tick s timestamp)\<lparr>all_markets_ready := True\<rparr>)
           done = (Inr (), s1)"
    and "c_process_market_pair e s1 p = (Inl err, s2)"
  shows "c_tick e s timestamp = (Inl err, s2\<lparr>last_timestamp := timestamp\<rparr>)
       \<and> (c_find_best_profitable_amount e s' b sl = Inl err' \<longrightarrow>
            c_process_market_pair_inner e s' b sl = (Inl err', s'))
       \<and> (c_find_best_profitable_amount e s' b sl = Inr (raw, prof)
            \<and> market_c_quantize_order_amount e (market b) (trading_pair b) raw = Inl err'
          \<longrightarrow> c_process_market_pair_inner e s' b sl = (Inl err', s'))
       \<and> (c_find_best_profitable_amount e s' b sl = Inr (raw, prof)
            \<and> market_c_quantize_order_amount e (market b) (trading_pair b) raw = Inr qb
            \<and> market_c_quantize_order_amount e (market sl) (trading_pair sl) raw = Inl err'
          \<longrightarrow> c_process_market_pair_inner e s' b sl = (Inl err', s'))"
proof -
  have "c_tick e s timestamp = (Inl err, s2\<lparr>last_timestamp := timestamp\<rparr>)"
    using c_tick_reaches_loop [OF assms(1-3), of timestamp]
      process_market_pairs_append_error [OF assms(5,6), of rest] assms(4)
    by simp
  then show ?thesis
    using inner_error_before_dispatch [of e s' b sl err' raw prof qb] by blast
qed


text \<open>C4, amended, in the concrete setting.\<close>

theorem pair_error_ends_tick_witness:
  "c_tick demo_env (demo_arbitrage_strategy [demo_pair_bad, demo_pair_good]) 1
     = (Inl QuantizationError, demo_ticked\<lparr>last_timestamp := 1\<rparr>)
   \<and> c_process_market_pair_inner demo_env demo_ticked demo_third demo_fourth
     = (Inl QuantizationError, demo_ticked)"
proof -
  let ?s = "demo_arbitrage_strategy [demo_pair_bad, demo_pair_good]"
  have h1: "status_report_interval ?s \<noteq> 0"
    by (simp add: demo_arbitrage_strategy_fields)
  have h2: "all_markets_ready ?s \<or> (\<forall>m \<in> sb_markets ?s. market_ready demo_env m)"
    by (simp add: demo_env_def)
  have h3: "\<forall>m \<in> sb_markets ?s. market_network_status demo_env m = CONNECTED"
    by (simp add: demo_env_def)
  have h4: "market_pairs ?s = [] @ demo_pair_bad # [demo_pair_good]"
    by (simp add: demo_arbitrage_strategy_fields)
  have h5: "process_market_pairs demo_env ((StrategyBase_c_tick ?s 1)\<lparr>all_markets_ready := True\<rparr>)
      [] = (Inr (), demo_ticked)"
    by (simp add: demo_ticked_def)
  have best: "c_find_best_profitable_amount demo_env demo_ticked demo_third demo_fourth
      = Inr (1, 110 / 101)"
    by (rule demo_best) (simp_all add: demo_ticked_fields demo_third_def demo_fourth_def)
  have q: "market_c_quantize_order_amount demo_env (market demo_third)
      (trading_pair demo_third) 1 = Inl QuantizationError"
    by (simp add: demo_env_def demo_third_def)
  show ?thesis
    using pair_error_ends_tick [OF h1 h2 h3 h4 h5 demo_bad_pair_raises,
        of demo_ticked demo_third demo_fourth QuantizationError 1 "110 / 101" 1]
      best q
    by simp
qed


section \<open>The matching loop: leftovers and termination\<close>

text \<open>
  The locals at the entry of the loop, the loop run for a given number of passes
  (\<open>Continue\<close> when it has not left by then), the number of rows still in the two
  iterators, and the invariant of the leftovers.
\<close>

definition loop_entry :: "order_book \<Rightarrow> order_book \<Rightarrow> loop_state" where
  "loop_entry buy_order_book sell_order_book =
     \<lparr>bid_it = bid_entries sell_order_book, ask_it = ask_entries buy_order_book,
      bid_leftover_amount = 0, ask_leftover_amount = 0,
      current_bid = None, current_ask = None, profitable_orders = []\<rparr>"

fun loop_iterate ::
  "(string \<Rightarrow> real \<Rightarrow> real) \<Rightarrow> real \<Rightarrow> string \<Rightarrow> string \<Rightarrow> nat \<Rightarrow> loop_state \<Rightarrow> loop_result"
  where
  "loop_iterate adj mp bq sq 0 st = Continue st"
| "loop_iterate adj mp bq sq (Suc n) st =
     (case loop_body adj mp bq sq st of
        Continue st' \<Rightarrow> loop_iterate adj mp bq sq n st'
      | Return orders \<Rightarrow> Return orders
      | Raise e \<Rightarrow> Raise e)"

definition loop_rows :: "loop_state \<Rightarrow> nat" where
  "loop_rows st = length (bid_it st) + length (ask_it st)"

definition leftovers_ok :: "loop_state \<Rightarrow> bool" where
  "leftovers_ok st =
     (0 \<le> bid_leftover_amount st \<and> 0 \<le> ask_leftover_amount st
      \<and> (bid_leftover_amount st = 0 \<or> ask_leftover_amount st = 0)
      \<and> list_all (\<lambda>row. 0 \<le> row_amount row) (bid_it st)
      \<and> list_all (\<lambda>row. 0 \<le> row_amount row) (ask_it st))"

lemma c_find_profitable_arbitrage_orders_loop:
  "c_find_profitable_arbitrage_orders adj mp buy_order_book sell_order_book bq sq
     = matching_loop adj mp bq sq (loop_entry buy_order_book sell_order_book)"
  by (simp add: c_find_profitable_arbitrage_orders_def loop_entry_def)

lemma matching_loop_iterate:
  "matching_loop adj mp bq sq st =
     (case loop_iterate adj mp bq sq n st of
        Continue st' \<Rightarrow> matching_loop adj mp bq sq st'
      | Return orders \<Rightarrow> Inr orders
      | Raise e \<Rightarrow> Inl e)"
proof (induction n arbitrary: st)
  case 0
  show ?case by simp
next
  case (Suc n)
  show ?case
  proof (cases "loop_body adj mp bq sq st")
    case (Continue st')
    then show ?thesis
      using Suc [of st'] by (simp add: matching_loop.simps [of adj mp bq sq st])
  qed (simp_all add: matching_loop.simps [of adj mp bq sq st])
qed

lemma loop_iterate_invariant:
  assumes step: "\<And>st st'. P st \<Longrightarrow> loop_body adj mp bq sq st = Continue st' \<Longrightarrow> P st'"
    and "P st" and "loop_iterate adj mp bq sq n st = Continue st'"
  shows "P st'"
  using assms(2,3)
proof (induction n arbitrary: st)
  case 0
  then show ?case by simp
next
  case (Suc n)
  then show ?case
    by (cases "loop_body adj mp bq sq st") (auto dest: step)
qed

lemma leftovers_ok_step:
  assumes "leftovers_ok st" and "loop_body adj mp bq sq st = Continue st'"
  shows "leftovers_ok st'"
  using assms
  by (auto simp: leftovers_ok_def loop_body_def advance_iterators_def Let_def min_def
             double_sub_self double_sub_nonneg
           split: if_splits list.splits option.splits)

lemma leftovers_ok_advance:
  assumes "leftovers_ok st"
  shows "advance_iterators st \<noteq> NegativeLeftover"
    and "advance_iterators st = Advanced st1 \<Longrightarrow>
           0 \<le> bid_leftover_amount st1 \<and> 0 \<le> ask_leftover_amount st1"
  using assms
  by (auto simp: leftovers_ok_def advance_iterators_def split: if_splits list.splits)

lemma loop_rows_step:
  assumes "bid_leftover_amount st = 0 \<or> ask_leftover_amount st = 0"
    and "loop_body adj mp bq sq st = Continue st'"
  shows "loop_rows st' < loop_rows st"
proof -
  have "bid_leftover_amount st' = 0 \<or> ask_leftover_amount st' = 0"
    using loop_body_one_leftover_zero [OF assms(2)] .
  then have "loop_measure st' = 2 * loop_rows st'"
    by (auto simp: loop_measure_def loop_rows_def)
  moreover have "loop_measure st = 2 * loop_rows st"
    using assms(1) by (auto simp: loop_measure_def loop_rows_def)
  ultimately show ?thesis
    using loop_body_measure [OF assms(2)] by simp
qed

lemma loop_iterate_rows:
  assumes "bid_leftover_amount st = 0 \<or> ask_leftover_amount st = 0"
    and "loop_iterate adj mp bq sq n st = Continue st'"
  shows "loop_rows st' + n \<le> loop_rows st"
  using assms
proof (induction n arbitrary: st)
  case 0
  then show ?case by simp
next
  case (Suc n)
  then obtain st1 where b: "loop_body adj mp bq sq st = Continue st1"
    and it: "loop_iterate adj mp bq sq n st1 = Continue st'"
    by (cases "loop_body adj mp bq sq st") auto
  have "loop_rows st' + n \<le> loop_rows st1"
    using Suc.IH [OF loop_body_one_leftover_zero [OF b] it] .
  then show ?case
    using loop_rows_step [OF Suc.prems(1) b] by simp
qed

text \<open>
  C9. For order books whose row amounts are not negative, at the head of every pass of
  the loop of \<^verbatim>\<open>c_find_profitable_arbitrage_orders\<close> both leftovers are non-negative and
  at least one of them is zero (so after each emitted step), they are non-negative
  after the iterators have advanced as well, and the \<^verbatim>\<open>else\<close> branch for a negative
  leftover is never taken. The loop ends within one pass more than the books have
  rows, and what it ends with is the result of the function.
\<close>

theorem leftovers_stay_nonnegative_and_loop_terminates:
  assumes amounts: "list_all (\<lambda>row. 0 \<le> row_amount row) (bid_entries sell_order_book)"
      "list_all (\<lambda>row. 0 \<le> row_amount row) (ask_entries buy_order_book)"
  shows "(\<forall>n st. loop_iterate adj mp bq sq n (loop_entry buy_order_book sell_order_book)
                    = Continue st \<longrightarrow>
            0 \<le> bid_leftover_amount st \<and> 0 \<le> ask_leftover_amount st
          \<and> (bid_leftover_amount st = 0 \<or> ask_leftover_amount st = 0)
          \<and> advance_iterators st \<noteq> NegativeLeftover
          \<and> (\<forall>st1. advance_iterators st = Advanced st1 \<longrightarrow>
                0 \<le> bid_leftover_amount st1 \<and> 0 \<le> ask_leftover_amount st1))
       \<and> (\<exists>n \<le> length (bid_entries sell_order_book) + length (ask_entries buy_order_book) + 1.
            (\<exists>orders. loop_iterate adj mp bq sq n (loop_entry buy_order_book sell_order_book)
                         = Return orders
                \<and> c_find_profitable_arbitrage_orders adj mp buy_order_book sell_order_book
                     bq sq = Inr orders)
          \<or> (\<exists>e. loop_iterate adj mp bq sq n (loop_entry buy_order_book sell_order_book)
                     = Raise e
                \<and> c_find_profitable_arbitrage_orders adj mp buy_order_book sell_order_book
                     bq sq = Inl e))"
proof -
  let ?init = "loop_entry buy_order_book sell_order_book"
  let ?N = "length (bid_entries sell_order_book) + length (ask_entries buy_order_book) + 1"
  have init: "leftovers_ok ?init"
    using amounts by (simp add: leftovers_ok_def loop_entry_def)
  have inv: "leftovers_ok st" if "loop_iterate adj mp bq sq n ?init = Continue st" for n st
    using loop_iterate_invariant [of leftovers_ok adj mp bq sq ?init n st]
      leftovers_ok_step init that by blast
  have first: "\<forall>n st. loop_iterate adj mp bq sq n ?init = Continue st \<longrightarrow>
            0 \<le> bid_leftover_amount st \<and> 0 \<le> ask_leftover_amount st
          \<and> (bid_leftover_amount st = 0 \<or> ask_leftover_amount st = 0)
          \<and> advance_iterators st \<noteq> NegativeLeftover
          \<and> (\<forall>st1. advance_iterators st = Advanced st1 \<longrightarrow>
                0 \<le> bid_leftover_amount st1 \<and> 0 \<le> ask_leftover_amount st1)"
  proof (intro allI impI)
    fix n st
    assume "loop_iterate adj mp bq sq n ?init = Continue st"
    then have ok: "leftovers_ok st" by (rule inv)
    show "0 \<le> bid_leftover_amount st \<and> 0 \<le> ask_leftover_amount st
          \<and> (bid_leftover_amount st = 0 \<or> ask_leftover_amount st = 0)
          \<and> advance_iterators st \<noteq> NegativeLeftover
          \<and> (\<forall>st1. advance_iterators st = Advanced st1 \<longrightarrow>
                0 \<le> bid_leftover_amount st1 \<and> 0 \<le> ask_leftover_amount st1)"
      using ok leftovers_ok_advance [OF ok] by (auto simp: leftovers_ok_def)
  qed
  have rows: "loop_rows ?init + 1 = ?N"
    by (simp add: loop_rows_def loop_entry_def)
  have stop: "loop_iterate adj mp bq sq ?N ?init \<noteq> Continue st" for st
  proof
    assume "loop_iterate adj mp bq sq ?N ?init = Continue st"
    then have "loop_rows st + ?N \<le> loop_rows ?init"
      by (intro loop_iterate_rows) (simp_all add: loop_entry_def)
    then show False using rows by simp
  qed
  have second: "(\<exists>orders. loop_iterate adj mp bq sq ?N ?init = Return orders
                \<and> c_find_profitable_arbitrage_orders adj mp buy_order_book sell_order_book
                     bq sq = Inr orders)
          \<or> (\<exists>e. loop_iterate adj mp bq sq ?N ?init = Raise e
                \<and> c_find_profitable_arbitrage_orders adj mp buy_order_book sell_order_book
                     bq sq = Inl e)"
    using stop matching_loop_iterate [of adj mp bq sq ?init ?N]
    by (cases "loop_iterate adj mp bq sq ?N ?init")
       (simp_all add: c_find_profitable_arbitrage_orders_loop)
  show ?thesis
    using first second by blast
qed


text \<open>C9 on the books of the concrete setting, after the first pass.\<close>

theorem leftovers_stay_nonnegative_and_loop_terminates_witness:
  "\<exists>st. loop_iterate (\<lambda>asset rate. rate) 0 ''USD'' ''USD'' 1
            (loop_entry (demo_book ''A'') (demo_book ''B'')) = Continue st
        \<and> 0 \<le> bid_leftover_amount st \<and> 0 \<le> ask_leftover_amount st
        \<and> advance_iterators st \<noteq> NegativeLeftover"
proof -
  have a1: "list_all (\<lambda>row. 0 \<le> row_amount row) (bid_entries (demo_book ''B''))"
    and a2: "list_all (\<lambda>row. 0 \<le> row_amount row) (ask_entries (demo_book ''A''))"
    by (simp_all add: demo_book_def)
  have run: "\<exists>st. loop_iterate (\<lambda>asset rate. rate) 0 ''USD'' ''USD'' 1
            (loop_entry (demo_book ''A'') (demo_book ''B'')) = Continue st"
    by (simp add: loop_entry_def demo_book_def loop_body_def advance_iterators_def Let_def
          double_sub_self)
  show ?thesis
    using leftovers_stay_nonnegative_and_loop_terminates
            [OF a1 a2, of "\<lambda>asset rate. rate" 0 "''USD''" "''USD''"] run
    by blast
qed


section \<open>The matching loop: sizes, order and total of the steps\<close>

text \<open>
  The bid/ask ratio of a step, the total amount of a list of steps, the depth of a
  list of rows, and the rows the loop can still use: the current row of a side and
  the rows left in its iterator.
\<close>

definition step_ratio :: "profitable_order \<Rightarrow> real" where
  "step_ratio t = step_bid_price_adjusted t / step_ask_price_adjusted t"

definition total_matched :: "profitable_order list \<Rightarrow> real" where
  "total_matched orders = sum_list (map step_amount orders)"

definition depth_of :: "order_book_row list \<Rightarrow> real" where
  "depth_of rows = sum_list (map row_amount rows)"

definition future_bids :: "loop_state \<Rightarrow> order_book_row list" where
  "future_bids st = (case current_bid st of None \<Rightarrow> [] | Some b \<Rightarrow> [b]) @ bid_it st"

definition future_asks :: "loop_state \<Rightarrow> order_book_row list" where
  "future_asks st = (case current_ask st of None \<Rightarrow> [] | Some a \<Rightarrow> [a]) @ ask_it st"

lemma loop_body_return:
  assumes "loop_body adj mp bq sq st = Return orders"
  shows "orders = profitable_orders st"
  using assms
  by (auto simp: loop_body_def advance_iterators_def Let_def
           split: if_splits list.splits option.splits advance.splits)

lemma matching_loop_invariant_result:
  assumes step: "\<And>st st'. P st \<Longrightarrow> loop_body adj mp bq sq st = Continue st' \<Longrightarrow> P st'"
    and noraise: "\<And>st e. P st \<Longrightarrow> loop_body adj mp bq sq st \<noteq> Raise e"
    and "P st"
  shows "\<exists>st'. P st' \<and> matching_loop adj mp bq sq st = Inr (profitable_orders st')"
  using assms(3)
proof (induction "loop_measure st" arbitrary: st rule: less_induct)
  case less
  show ?case
  proof (cases "loop_body adj mp bq sq st")
    case (Continue st')
    have "\<exists>st''. P st'' \<and> matching_loop adj mp bq sq st' = Inr (profitable_orders st'')"
      using less.hyps [OF loop_body_measure [OF Continue]] step [OF less.prems Continue] .
    then show ?thesis
      using Continue by (simp add: matching_loop.simps [of adj mp bq sq st])
  next
    case (Return orders)
    then show ?thesis
      using less.prems loop_body_return [OF Return]
      by (auto simp: matching_loop.simps [of adj mp bq sq st])
  next
    case (Raise e)
    then show ?thesis using noraise [OF less.prems] by simp
  qed
qed

text \<open>What one pass that goes round again has done.\<close>

lemma loop_body_continue:
  assumes "loop_body adj mp bq sq st = Continue st'"
  shows "\<exists>st1 b a. advance_iterators st = Advanced st1
          \<and> current_bid st1 = Some b \<and> current_ask st1 = Some a
          \<and> adj bq (row_price a) \<le> adj sq (row_price b)
          \<and> (mp < 0 \<longrightarrow> adj bq (row_price a) \<noteq> 0)
          \<and> st' = st1\<lparr>profitable_orders :=
                  profitable_orders st1 @
                    [(adj sq (row_price b), adj bq (row_price a), row_price b, row_price a,
                      min (bid_leftover_amount st1) (ask_leftover_amount st1))],
                ask_leftover_amount := double_sub (ask_leftover_amount st1)
                    (min (bid_leftover_amount st1) (ask_leftover_amount st1)),
                bid_leftover_amount := double_sub (bid_leftover_amount st1)
                    (min (bid_leftover_amount st1) (ask_leftover_amount st1))\<rparr>"
  using assms
  by (auto simp: loop_body_def Let_def split: advance.splits option.splits if_splits)

lemma advance_iterators_future:
  assumes "advance_iterators st = Advanced st1"
  shows "profitable_orders st1 = profitable_orders st
       \<and> (\<exists>pb. future_bids st = pb @ future_bids st1)
       \<and> (\<exists>pa. future_asks st = pa @ future_asks st1)"
  using assms
  by (auto simp: advance_iterators_def future_bids_def future_asks_def
           split: if_splits list.splits option.splits)


text \<open>
  The invariant for the prices: what is left of each side is still sorted, asks are
  positive, the steps so far have non-increasing ratios, and every step so far has a
  bid at least as high and an ask at least as low as any row still to come.
\<close>

definition ratio_inv ::
  "(string \<Rightarrow> real \<Rightarrow> real) \<Rightarrow> string \<Rightarrow> string \<Rightarrow> loop_state \<Rightarrow> bool" where
  "ratio_inv adj bq sq st =
     (sorted_wrt (\<lambda>x y. adj sq (row_price y) \<le> adj sq (row_price x)) (future_bids st)
      \<and> sorted_wrt (\<lambda>x y. adj bq (row_price x) \<le> adj bq (row_price y)) (future_asks st)
      \<and> list_all (\<lambda>a. 0 < adj bq (row_price a)) (future_asks st)
      \<and> sorted_wrt (\<lambda>t u. step_ratio u \<le> step_ratio t) (profitable_orders st)
      \<and> list_all (\<lambda>t. 0 < step_ask_price_adjusted t
                      \<and> step_ask_price_adjusted t \<le> step_bid_price_adjusted t
                      \<and> list_all (\<lambda>b. adj sq (row_price b) \<le> step_bid_price_adjusted t)
                           (future_bids st)
                      \<and> list_all (\<lambda>a. step_ask_price_adjusted t \<le> adj bq (row_price a))
                           (future_asks st))
           (profitable_orders st)
      \<and> (if current_bid st = None \<or> current_ask st = None
          then bid_leftover_amount st = 0 \<and> ask_leftover_amount st = 0 else True))"

lemma ratio_inv_step:
  assumes inv: "ratio_inv adj bq sq st"
    and body: "loop_body adj mp bq sq st = Continue st'"
  shows "ratio_inv adj bq sq st'"
proof -
  obtain st1 b a where adv: "advance_iterators st = Advanced st1"
    and cb: "current_bid st1 = Some b" and ca: "current_ask st1 = Some a"
    and le: "adj bq (row_price a) \<le> adj sq (row_price b)"
    and st': "st' = st1\<lparr>profitable_orders :=
                  profitable_orders st1 @
                    [(adj sq (row_price b), adj bq (row_price a), row_price b, row_price a,
                      min (bid_leftover_amount st1) (ask_leftover_amount st1))],
                ask_leftover_amount := double_sub (ask_leftover_amount st1)
                    (min (bid_leftover_amount st1) (ask_leftover_amount st1)),
                bid_leftover_amount := double_sub (bid_leftover_amount st1)
                    (min (bid_leftover_amount st1) (ask_leftover_amount st1))\<rparr>"
    using loop_body_continue [OF body] by blast
  obtain pb pa where po: "profitable_orders st1 = profitable_orders st"
    and fb: "future_bids st = pb @ future_bids st1"
    and fa: "future_asks st = pa @ future_asks st1"
    using advance_iterators_future [OF adv] by blast
  let ?t = "(adj sq (row_price b), adj bq (row_price a), row_price b, row_price a,
             min (bid_leftover_amount st1) (ask_leftover_amount st1))"
  have fb1: "future_bids st1 = b # bid_it st1" and fa1: "future_asks st1 = a # ask_it st1"
    by (simp_all add: future_bids_def future_asks_def cb ca)
  have fb': "future_bids st' = b # bid_it st1" and fa': "future_asks st' = a # ask_it st1"
    and po': "profitable_orders st' = profitable_orders st @ [?t]"
    and cur': "current_bid st' = Some b" "current_ask st' = Some a"
    by (simp_all add: st' future_bids_def future_asks_def cb ca po)
  have sb: "sorted_wrt (\<lambda>x y. adj sq (row_price y) \<le> adj sq (row_price x)) (b # bid_it st1)"
    and sa: "sorted_wrt (\<lambda>x y. adj bq (row_price x) \<le> adj bq (row_price y)) (a # ask_it st1)"
    and pos: "list_all (\<lambda>a. 0 < adj bq (row_price a)) (a # ask_it st1)"
    using inv by (simp_all add: ratio_inv_def fb fa fb1 fa1 sorted_wrt_append)
  have old: "list_all (\<lambda>t. 0 < step_ask_price_adjusted t
                      \<and> step_ask_price_adjusted t \<le> step_bid_price_adjusted t
                      \<and> list_all (\<lambda>b. adj sq (row_price b) \<le> step_bid_price_adjusted t)
                           (b # bid_it st1)
                      \<and> list_all (\<lambda>a. step_ask_price_adjusted t \<le> adj bq (row_price a))
                           (a # ask_it st1))
           (profitable_orders st)"
    using inv by (simp add: ratio_inv_def fb fa fb1 fa1 list_all_iff)
  have new: "0 < step_ask_price_adjusted ?t
      \<and> step_ask_price_adjusted ?t \<le> step_bid_price_adjusted ?t
      \<and> list_all (\<lambda>b. adj sq (row_price b) \<le> step_bid_price_adjusted ?t) (b # bid_it st1)
      \<and> list_all (\<lambda>a. step_ask_price_adjusted ?t \<le> adj bq (row_price a)) (a # ask_it st1)"
    using sb sa pos le
    by (simp add: step_ask_price_adjusted_def step_bid_price_adjusted_def list_all_iff)
  have ratio: "step_ratio ?t \<le> step_ratio t" if "t \<in> set (profitable_orders st)" for t
  proof -
    have t: "0 < step_ask_price_adjusted t"
      "step_ask_price_adjusted t \<le> step_bid_price_adjusted t"
      "adj sq (row_price b) \<le> step_bid_price_adjusted t"
      "step_ask_price_adjusted t \<le> adj bq (row_price a)"
      using old that by (simp_all add: list_all_iff)
    have "adj sq (row_price b) / adj bq (row_price a)
        \<le> step_bid_price_adjusted t / step_ask_price_adjusted t"
      using t by (intro frac_le) simp_all
    then show ?thesis
      by (simp add: step_ratio_def step_ask_price_adjusted_def step_bid_price_adjusted_def)
  qed
  have sorted: "sorted_wrt (\<lambda>t u. step_ratio u \<le> step_ratio t) (profitable_orders st @ [?t])"
    using inv ratio by (simp add: ratio_inv_def sorted_wrt_append)
  show ?thesis
    unfolding ratio_inv_def fb' fa' po' cur'
    using sb sa pos sorted old new by simp
qed

lemma ratio_inv_no_raise:
  assumes inv: "ratio_inv adj bq sq st"
  shows "loop_body adj mp bq sq st \<noteq> Raise e"
proof
  assume r: "loop_body adj mp bq sq st = Raise e"
  then obtain st1 where adv: "advance_iterators st = Advanced st1"
    by (cases "advance_iterators st") (simp_all add: loop_body_def)
  obtain pa where fa: "future_asks st = pa @ future_asks st1"
    using advance_iterators_future [OF adv] by blast
  have cur: "current_bid st1 \<noteq> None \<and> current_ask st1 \<noteq> None"
    using inv adv
    by (auto simp: ratio_inv_def advance_iterators_def split: if_splits list.splits)
  then obtain b a where cb: "current_bid st1 = Some b" and ca: "current_ask st1 = Some a"
    by auto
  have "list_all (\<lambda>a. 0 < adj bq (row_price a)) (future_asks st)"
    using inv by (simp add: ratio_inv_def)
  then have "list_all (\<lambda>a. 0 < adj bq (row_price a)) (future_asks st1)"
    by (simp add: fa)
  then have "0 < adj bq (row_price a)"
    by (simp add: future_asks_def ca)
  then show False
    using r by (simp add: loop_body_def adv cb ca Let_def split: if_splits)
qed



text \<open>
  The depth of a side up to the crossing point: the amounts of the bid rows priced
  (normalized) at or above the best ask, and of the ask rows priced at or below the
  best bid.
\<close>

definition bid_depth_to_crossing ::
  "(string \<Rightarrow> real \<Rightarrow> real) \<Rightarrow> string \<Rightarrow> real \<Rightarrow> order_book_row list \<Rightarrow> real" where
  "bid_depth_to_crossing adj sq best_ask_adjusted bids =
     depth_of (filter (\<lambda>row. best_ask_adjusted \<le> adj sq (row_price row)) bids)"

definition ask_depth_to_crossing ::
  "(string \<Rightarrow> real \<Rightarrow> real) \<Rightarrow> string \<Rightarrow> real \<Rightarrow> order_book_row list \<Rightarrow> real" where
  "ask_depth_to_crossing adj bq best_bid_adjusted asks =
     depth_of (filter (\<lambda>row. adj bq (row_price row) \<le> best_bid_adjusted) asks)"

text \<open>
  Amounts for which the subtraction of doubles is exact: the whole multiples of one
  power of two \<open>2 powi k\<close>, from 0 to below \<open>2 ^ 53\<close> of them. The difference of two
  such amounts is one of them again, and its significand fits a double.
\<close>

definition on_grid :: "int \<Rightarrow> real \<Rightarrow> bool" where
  "on_grid k x =
     (0 \<le> x \<and> x < 2 ^ 53 * 2 powi k \<and> of_int \<lfloor>x / 2 powi k\<rfloor> = x / 2 powi k)"

definition order_book_amounts_exact :: "int \<Rightarrow> order_book \<Rightarrow> order_book \<Rightarrow> bool" where
  "order_book_amounts_exact k buy_order_book sell_order_book =
     (list_all (\<lambda>row. on_grid k (row_amount row)) (bid_entries sell_order_book)
      \<and> list_all (\<lambda>row. on_grid k (row_amount row)) (ask_entries buy_order_book))"

lemma on_gridI:
  assumes "0 \<le> n" and "n < 2 ^ 53"
  shows "on_grid k (of_int n * 2 powi k)"
proof -
  have "(of_int n :: real) < 2 ^ 53"
    using assms(2) by (metis of_int_less_numeral_power_cancel_iff)
  then show ?thesis
    using assms(1) by (simp add: on_grid_def)
qed

lemma on_gridE:
  assumes "on_grid k x"
  obtains n where "0 \<le> n" and "n < 2 ^ 53" and "x = of_int n * 2 powi k"
proof -
  let ?n = "\<lfloor>x / 2 powi k\<rfloor>"
  have p: "(0::real) < 2 powi k" by simp
  have q: "of_int ?n = x / 2 powi k" and x0: "0 \<le> x" and xu: "x < 2 ^ 53 * 2 powi k"
    using assms unfolding on_grid_def by blast+
  have x: "x = of_int ?n * 2 powi k"
    unfolding q using p by simp
  have n0: "0 \<le> ?n"
    using x0 p by simp
  have "x / 2 powi k < 2 ^ 53"
    using xu p by (simp add: field_simps)
  then have "of_int ?n < (2 ^ 53 :: real)"
    unfolding q .
  then have "?n < 2 ^ 53"
    by (metis of_int_less_numeral_power_cancel_iff)
  then show ?thesis using that n0 x by blast
qed

lemma on_grid_nonneg: "on_grid k x \<Longrightarrow> 0 \<le> x"
  by (simp add: on_grid_def)

lemma on_grid_zero: "on_grid k 0"
  by (simp add: on_grid_def)

lemma on_grid_diff:
  assumes "on_grid k x" and "on_grid k y" and "y \<le> x"
  shows "on_grid k (x - y)" and "double_sub x y = x - y"
proof -
  obtain n where n: "0 \<le> n" "n < 2 ^ 53" "x = of_int n * 2 powi k"
    using assms(1) by (rule on_gridE)
  obtain m where m: "0 \<le> m" "m < 2 ^ 53" "y = of_int m * 2 powi k"
    using assms(2) by (rule on_gridE)
  have "(of_int m :: real) * 2 powi k \<le> of_int n * 2 powi k"
    using assms(3) n(3) m(3) by simp
  then have "m \<le> n" by simp
  have d: "x - y = of_int (n - m) * 2 powi k"
    by (simp add: n(3) m(3) algebra_simps)
  show "on_grid k (x - y)"
    unfolding d using \<open>m \<le> n\<close> n(2) m(1) by (intro on_gridI) simp_all
  have "\<bar>n - m\<bar> < 2 ^ 53"
    using \<open>m \<le> n\<close> n(2) m(1) by simp
  then show "double_sub x y = x - y"
    unfolding double_sub_def d by (rule round_double_exact)
qed

text \<open>
  The invariant for the amounts, on such a grid: what has been matched, plus the
  leftover, plus the crossing depth still in the iterator, never exceeds the crossing
  depth of the whole side.
\<close>

definition amounts_inv ::
  "(string \<Rightarrow> real \<Rightarrow> real) \<Rightarrow> string \<Rightarrow> string \<Rightarrow> int \<Rightarrow> real \<Rightarrow> real \<Rightarrow> real \<Rightarrow> real
   \<Rightarrow> loop_state \<Rightarrow> bool" where
  "amounts_inv adj bq sq k A B dbid dask st =
     (on_grid k (bid_leftover_amount st) \<and> on_grid k (ask_leftover_amount st)
      \<and> list_all (\<lambda>row. on_grid k (row_amount row)) (bid_it st)
      \<and> list_all (\<lambda>row. on_grid k (row_amount row)) (ask_it st)
      \<and> list_all (\<lambda>a. A \<le> adj bq (row_price a)) (future_asks st)
      \<and> list_all (\<lambda>b. adj sq (row_price b) \<le> B) (future_bids st)
      \<and> total_matched (profitable_orders st) + bid_leftover_amount st
            + bid_depth_to_crossing adj sq A (bid_it st) \<le> dbid
      \<and> total_matched (profitable_orders st) + ask_leftover_amount st
            + ask_depth_to_crossing adj bq B (ask_it st) \<le> dask)"

lemma advance_iterators_sides:
  assumes "advance_iterators st = Advanced st1"
    and "current_bid st1 = Some b" and "current_ask st1 = Some a"
  shows "((bid_it st = b # bid_it st1 \<and> bid_leftover_amount st = 0
            \<and> bid_leftover_amount st1 = row_amount b)
          \<or> (bid_it st1 = bid_it st \<and> bid_leftover_amount st1 = bid_leftover_amount st))
       \<and> ((ask_it st = a # ask_it st1 \<and> ask_leftover_amount st = 0
            \<and> ask_leftover_amount st1 = row_amount a)
          \<or> (ask_it st1 = ask_it st \<and> ask_leftover_amount st1 = ask_leftover_amount st))"
  using assms
  by (auto simp: advance_iterators_def split: if_splits list.splits)

lemma depth_filter_nonneg:
  assumes "list_all (\<lambda>row. on_grid k (row_amount row)) rows"
  shows "0 \<le> depth_of (filter P rows)"
  using assms by (induction rows) (auto simp: depth_of_def on_grid_nonneg)

lemma amounts_inv_step:
  assumes inv: "amounts_inv adj bq sq k A B dbid dask st"
    and body: "loop_body adj mp bq sq st = Continue st'"
  shows "amounts_inv adj bq sq k A B dbid dask st'"
proof -
  obtain st1 b a where adv: "advance_iterators st = Advanced st1"
    and cb: "current_bid st1 = Some b" and ca: "current_ask st1 = Some a"
    and le: "adj bq (row_price a) \<le> adj sq (row_price b)"
    and st': "st' = st1\<lparr>profitable_orders :=
                  profitable_orders st1 @
                    [(adj sq (row_price b), adj bq (row_price a), row_price b, row_price a,
                      min (bid_leftover_amount st1) (ask_leftover_amount st1))],
                ask_leftover_amount := double_sub (ask_leftover_amount st1)
                    (min (bid_leftover_amount st1) (ask_leftover_amount st1)),
                bid_leftover_amount := double_sub (bid_leftover_amount st1)
                    (min (bid_leftover_amount st1) (ask_leftover_amount st1))\<rparr>"
    using loop_body_continue [OF body] by blast
  obtain pb pa where po: "profitable_orders st1 = profitable_orders st"
    and fb: "future_bids st = pb @ future_bids st1"
    and fa: "future_asks st = pa @ future_asks st1"
    using advance_iterators_future [OF adv] by blast
  let ?m = "min (bid_leftover_amount st1) (ask_leftover_amount st1)"
  have fa1: "list_all (\<lambda>a. A \<le> adj bq (row_price a)) (future_asks st1)"
    and fb1: "list_all (\<lambda>b. adj sq (row_price b) \<le> B) (future_bids st1)"
    using inv by (simp_all add: amounts_inv_def fa fb)
  have Aa: "A \<le> adj bq (row_price a)" and bB: "adj sq (row_price b) \<le> B"
    using fa1 fb1 by (simp_all add: future_asks_def future_bids_def ca cb)
  have Ab: "A \<le> adj sq (row_price b)" and aB: "adj bq (row_price a) \<le> B"
    using Aa bB le by simp_all
  note sides = advance_iterators_sides [OF adv cb ca]
  have bid1: "on_grid k (bid_leftover_amount st1)
      \<and> list_all (\<lambda>row. on_grid k (row_amount row)) (bid_it st1)
      \<and> bid_leftover_amount st1 + bid_depth_to_crossing adj sq A (bid_it st1)
          = bid_leftover_amount st + bid_depth_to_crossing adj sq A (bid_it st)"
    using sides inv Ab
    by (auto simp: amounts_inv_def bid_depth_to_crossing_def depth_of_def)
  have ask1: "on_grid k (ask_leftover_amount st1)
      \<and> list_all (\<lambda>row. on_grid k (row_amount row)) (ask_it st1)
      \<and> ask_leftover_amount st1 + ask_depth_to_crossing adj bq B (ask_it st1)
          = ask_leftover_amount st + ask_depth_to_crossing adj bq B (ask_it st)"
    using sides inv aB
    by (auto simp: amounts_inv_def ask_depth_to_crossing_def depth_of_def)
  have gm: "on_grid k ?m"
    using bid1 ask1 by (simp add: min_def)
  have subs: "double_sub (bid_leftover_amount st1) ?m = bid_leftover_amount st1 - ?m"
    "double_sub (ask_leftover_amount st1) ?m = ask_leftover_amount st1 - ?m"
    "on_grid k (bid_leftover_amount st1 - ?m)" "on_grid k (ask_leftover_amount st1 - ?m)"
    using on_grid_diff [OF _ gm, of "bid_leftover_amount st1"]
      on_grid_diff [OF _ gm, of "ask_leftover_amount st1"] bid1 ask1
    by simp_all
  have tot: "total_matched (profitable_orders st') = total_matched (profitable_orders st) + ?m"
    by (simp add: st' po total_matched_def step_amount_def)
  have f': "future_asks st' = future_asks st1" "future_bids st' = future_bids st1"
    "bid_it st' = bid_it st1" "ask_it st' = ask_it st1"
    "bid_leftover_amount st' = bid_leftover_amount st1 - ?m"
    "ask_leftover_amount st' = ask_leftover_amount st1 - ?m"
    by (simp_all add: st' future_asks_def future_bids_def subs)
  have b: "total_matched (profitable_orders st) + bid_leftover_amount st
            + bid_depth_to_crossing adj sq A (bid_it st) \<le> dbid"
    and a: "total_matched (profitable_orders st) + ask_leftover_amount st
            + ask_depth_to_crossing adj bq B (ask_it st) \<le> dask"
    using inv by (simp_all add: amounts_inv_def)
  show ?thesis
    unfolding amounts_inv_def f' tot
    using bid1 ask1 fa1 fb1 a b subs(3,4) by simp
qed


text \<open>
  What an order book gives the loop: bids by decreasing and asks by increasing
  normalized price, positive normalized ask prices, and no negative amount.
\<close>

definition order_books_well_formed ::
  "(string \<Rightarrow> real \<Rightarrow> real) \<Rightarrow> string \<Rightarrow> string \<Rightarrow> order_book \<Rightarrow> order_book \<Rightarrow> bool" where
  "order_books_well_formed adj bq sq buy_order_book sell_order_book =
     (sorted_wrt (\<lambda>x y. adj sq (row_price y) \<le> adj sq (row_price x))
        (bid_entries sell_order_book)
      \<and> sorted_wrt (\<lambda>x y. adj bq (row_price x) \<le> adj bq (row_price y))
          (ask_entries buy_order_book)
      \<and> list_all (\<lambda>row. 0 < adj bq (row_price row)) (ask_entries buy_order_book)
      \<and> list_all (\<lambda>row. 0 \<le> row_amount row) (bid_entries sell_order_book)
      \<and> list_all (\<lambda>row. 0 \<le> row_amount row) (ask_entries buy_order_book))"

lemma loop_entry_future:
  "future_bids (loop_entry buy_order_book sell_order_book) = bid_entries sell_order_book"
  "future_asks (loop_entry buy_order_book sell_order_book) = ask_entries buy_order_book"
  by (simp_all add: future_bids_def future_asks_def loop_entry_def)

lemma ratio_inv_entry:
  assumes "order_books_well_formed adj bq sq buy_order_book sell_order_book"
  shows "ratio_inv adj bq sq (loop_entry buy_order_book sell_order_book)"
  using assms unfolding ratio_inv_def loop_entry_future
  by (simp add: order_books_well_formed_def loop_entry_def)

lemma matching_sorted:
  assumes wf: "order_books_well_formed adj bq sq buy_order_book sell_order_book"
  shows "\<exists>orders. c_find_profitable_arbitrage_orders adj mp buy_order_book sell_order_book
                     bq sq = Inr orders
           \<and> list_all (\<lambda>t. step_ask_price_adjusted t \<le> step_bid_price_adjusted t) orders
           \<and> sorted_wrt (\<lambda>t u. step_ratio u \<le> step_ratio t) orders"
proof -
  let ?init = "loop_entry buy_order_book sell_order_book"
  have "\<exists>st'. ratio_inv adj bq sq st'
      \<and> matching_loop adj mp bq sq ?init = Inr (profitable_orders st')"
  proof (rule matching_loop_invariant_result [where P = "ratio_inv adj bq sq"])
    show "ratio_inv adj bq sq st'"
      if "ratio_inv adj bq sq st" "loop_body adj mp bq sq st = Continue st'" for st st'
      using that by (rule ratio_inv_step)
    show "loop_body adj mp bq sq st \<noteq> Raise e" if "ratio_inv adj bq sq st" for st e
      using that by (rule ratio_inv_no_raise)
    show "ratio_inv adj bq sq ?init" using wf by (rule ratio_inv_entry)
  qed
  then obtain st' where r: "ratio_inv adj bq sq st'"
    and res: "matching_loop adj mp bq sq ?init = Inr (profitable_orders st')"
    by blast
  have cross: "list_all (\<lambda>t. step_ask_price_adjusted t \<le> step_bid_price_adjusted t)
      (profitable_orders st')"
    using r by (simp add: ratio_inv_def list_all_iff)
  have sorted: "sorted_wrt (\<lambda>t u. step_ratio u \<le> step_ratio t) (profitable_orders st')"
    using r by (simp add: ratio_inv_def)
  show ?thesis
    using res cross sorted by (simp add: c_find_profitable_arbitrage_orders_loop)
qed

lemma matching_bounded:
  assumes wf: "order_books_well_formed adj bq sq buy_order_book sell_order_book"
    and exact: "order_book_amounts_exact k buy_order_book sell_order_book"
    and asks: "ask_entries buy_order_book = best_ask # asks"
    and bids: "bid_entries sell_order_book = best_bid # bids"
    and res: "c_find_profitable_arbitrage_orders adj mp buy_order_book sell_order_book
                bq sq = Inr orders"
  shows "total_matched orders
           \<le> min (bid_depth_to_crossing adj sq (adj bq (row_price best_ask))
                    (bid_entries sell_order_book))
                 (ask_depth_to_crossing adj bq (adj sq (row_price best_bid))
                    (ask_entries buy_order_book))"
proof -
  let ?A = "adj bq (row_price best_ask)" and ?B = "adj sq (row_price best_bid)"
  let ?dbid = "bid_depth_to_crossing adj sq ?A (bid_entries sell_order_book)"
  let ?dask = "ask_depth_to_crossing adj bq ?B (ask_entries buy_order_book)"
  let ?init = "loop_entry buy_order_book sell_order_book"
  let ?P = "\<lambda>st. ratio_inv adj bq sq st \<and> amounts_inv adj bq sq k ?A ?B ?dbid ?dask st"
  have above: "list_all (\<lambda>a. ?A \<le> adj bq (row_price a)) (ask_entries buy_order_book)"
    and below: "list_all (\<lambda>b. adj sq (row_price b) \<le> ?B) (bid_entries sell_order_book)"
    using wf by (auto simp: order_books_well_formed_def asks bids list_all_iff)
  have a0: "amounts_inv adj bq sq k ?A ?B ?dbid ?dask ?init"
    using exact above below unfolding amounts_inv_def loop_entry_future
    by (simp add: order_book_amounts_exact_def loop_entry_def total_matched_def
          on_grid_zero)
  have "\<exists>st'. ?P st' \<and> matching_loop adj mp bq sq ?init = Inr (profitable_orders st')"
  proof (rule matching_loop_invariant_result [where P = ?P])
    show "?P st'" if "?P st" "loop_body adj mp bq sq st = Continue st'" for st st'
      using that ratio_inv_step amounts_inv_step by blast
    show "loop_body adj mp bq sq st \<noteq> Raise e" if "?P st" for st e
      using that ratio_inv_no_raise by blast
    show "?P ?init" using ratio_inv_entry [OF wf] a0 by simp
  qed
  then obtain st' where a: "amounts_inv adj bq sq k ?A ?B ?dbid ?dask st'"
    and res': "matching_loop adj mp bq sq ?init = Inr (profitable_orders st')"
    by blast
  have orders: "orders = profitable_orders st'"
    using res res' by (simp add: c_find_profitable_arbitrage_orders_loop)
  have gb: "list_all (\<lambda>row. on_grid k (row_amount row)) (bid_it st')"
    and ga: "list_all (\<lambda>row. on_grid k (row_amount row)) (ask_it st')"
    and lb: "on_grid k (bid_leftover_amount st')"
    and la: "on_grid k (ask_leftover_amount st')"
    and tb: "total_matched (profitable_orders st') + bid_leftover_amount st'
            + bid_depth_to_crossing adj sq ?A (bid_it st') \<le> ?dbid"
    and ta: "total_matched (profitable_orders st') + ask_leftover_amount st'
            + ask_depth_to_crossing adj bq ?B (ask_it st') \<le> ?dask"
    using a unfolding amounts_inv_def by blast+
  have "0 \<le> bid_depth_to_crossing adj sq ?A (bid_it st')"
    unfolding bid_depth_to_crossing_def using gb by (rule depth_filter_nonneg)
  moreover have "0 \<le> ask_depth_to_crossing adj bq ?B (ask_it st')"
    unfolding ask_depth_to_crossing_def using ga by (rule depth_filter_nonneg)
  moreover have "0 \<le> bid_leftover_amount st'" "0 \<le> ask_leftover_amount st'"
    using lb la by (simp_all add: on_grid_nonneg)
  ultimately show ?thesis
    using tb ta unfolding orders by linarith
qed

lemma matching_loop_prefix:
  assumes "matching_loop adj mp bq sq st = Inr orders"
  shows "\<exists>rest. orders = profitable_orders st @ rest"
  using assms
proof (induction "loop_measure st" arbitrary: st rule: less_induct)
  case less
  show ?case
  proof (cases "loop_body adj mp bq sq st")
    case (Continue st')
    obtain st1 b a where adv: "advance_iterators st = Advanced st1"
      and cb: "current_bid st1 = Some b" and ca: "current_ask st1 = Some a"
      and le: "adj bq (row_price a) \<le> adj sq (row_price b)"
      and st': "st' = st1\<lparr>profitable_orders :=
                  profitable_orders st1 @
                    [(adj sq (row_price b), adj bq (row_price a), row_price b, row_price a,
                      min (bid_leftover_amount st1) (ask_leftover_amount st1))],
                ask_leftover_amount := double_sub (ask_leftover_amount st1)
                    (min (bid_leftover_amount st1) (ask_leftover_amount st1)),
                bid_leftover_amount := double_sub (bid_leftover_amount st1)
                    (min (bid_leftover_amount st1) (ask_leftover_amount st1))\<rparr>"
      using loop_body_continue [OF Continue] by blast
    have po: "profitable_orders st1 = profitable_orders st"
      using advance_iterators_future [OF adv] by blast
    have "matching_loop adj mp bq sq st' = Inr orders"
      using less.prems Continue by (simp add: matching_loop.simps [of adj mp bq sq st])
    then obtain rest where "orders = profitable_orders st' @ rest"
      using less.hyps [OF loop_body_measure [OF Continue]] by blast
    then show ?thesis
      by (simp add: st' po)
  next
    case (Return os)
    then show ?thesis
      using less.prems loop_body_return [OF Return]
      by (simp add: matching_loop.simps [of adj mp bq sq st])
  next
    case (Raise e)
    then show ?thesis
      using less.prems by (simp add: matching_loop.simps [of adj mp bq sq st])
  qed
qed

text \<open>When a pass emits a step, and when it stops.\<close>

lemma loop_body_emits:
  assumes "advance_iterators st = Advanced st1"
    and "current_bid st1 = Some b" and "current_ask st1 = Some a"
    and "adj bq (row_price a) \<le> adj sq (row_price b)"
    and "0 \<le> mp \<or> (adj bq (row_price a) \<noteq> 0
           \<and> 1 + mp \<le> adj sq (row_price b) / adj bq (row_price a))"
  shows "loop_body adj mp bq sq st = Continue (st1\<lparr>profitable_orders :=
                  profitable_orders st1 @
                    [(adj sq (row_price b), adj bq (row_price a), row_price b, row_price a,
                      min (bid_leftover_amount st1) (ask_leftover_amount st1))],
                ask_leftover_amount := double_sub (ask_leftover_amount st1)
                    (min (bid_leftover_amount st1) (ask_leftover_amount st1)),
                bid_leftover_amount := double_sub (bid_leftover_amount st1)
                    (min (bid_leftover_amount st1) (ask_leftover_amount st1))\<rparr>)"
  using assms by (auto simp: loop_body_def Let_def)

lemma loop_body_stops:
  "(advance_iterators st = StopIteration \<longrightarrow>
      loop_body adj mp bq sq st = Return (profitable_orders st))
   \<and> (advance_iterators st = Advanced st1 \<and> current_bid st1 = Some b
        \<and> current_ask st1 = Some a \<and> adj sq (row_price b) < adj bq (row_price a) \<longrightarrow>
      loop_body adj mp bq sq st = Return (profitable_orders st))"
  using advance_iterators_future [of st st1]
  by (auto simp: loop_body_def Let_def)

lemma loop_body_step_size:
  assumes "loop_body adj mp bq sq st = Continue st'"
  shows "\<exists>st1 t. advance_iterators st = Advanced st1
          \<and> profitable_orders st' = profitable_orders st @ [t]
          \<and> step_amount t = min (bid_leftover_amount st1) (ask_leftover_amount st1)
          \<and> bid_leftover_amount st' = double_sub (bid_leftover_amount st1) (step_amount t)
          \<and> ask_leftover_amount st' = double_sub (ask_leftover_amount st1) (step_amount t)"
proof -
  obtain st1 b a where adv: "advance_iterators st = Advanced st1"
    and cb: "current_bid st1 = Some b" and ca: "current_ask st1 = Some a"
    and le: "adj bq (row_price a) \<le> adj sq (row_price b)"
    and st': "st' = st1\<lparr>profitable_orders :=
                  profitable_orders st1 @
                    [(adj sq (row_price b), adj bq (row_price a), row_price b, row_price a,
                      min (bid_leftover_amount st1) (ask_leftover_amount st1))],
                ask_leftover_amount := double_sub (ask_leftover_amount st1)
                    (min (bid_leftover_amount st1) (ask_leftover_amount st1)),
                bid_leftover_amount := double_sub (bid_leftover_amount st1)
                    (min (bid_leftover_amount st1) (ask_leftover_amount st1))\<rparr>"
    using loop_body_continue [OF assms] by blast
  have po: "profitable_orders st1 = profitable_orders st"
    using advance_iterators_future [OF adv] by blast
  show ?thesis
    using adv by (simp add: st' po step_amount_def)
qed

lemma first_step:
  assumes asks: "ask_entries buy_order_book = best_ask # asks"
    and bids: "bid_entries sell_order_book = best_bid # bids"
    and cross: "adj bq (row_price best_ask) \<le> adj sq (row_price best_bid)"
    and mp: "0 \<le> mp"
    and res: "c_find_profitable_arbitrage_orders adj mp buy_order_book sell_order_book
                bq sq = Inr orders"
  shows "\<exists>rest. orders =
           (adj sq (row_price best_bid), adj bq (row_price best_ask), row_price best_bid,
            row_price best_ask, min (row_amount best_bid) (row_amount best_ask)) # rest"
proof -
  let ?init = "loop_entry buy_order_book sell_order_book"
  let ?st1 = "?init\<lparr>bid_it := bids, ask_it := asks,
                     current_bid := Some best_bid, current_ask := Some best_ask,
                     ask_leftover_amount := row_amount best_ask,
                     bid_leftover_amount := row_amount best_bid\<rparr>"
  have adv: "advance_iterators ?init = Advanced ?st1"
    by (simp add: advance_iterators_def loop_entry_def asks bids)
  obtain st' where body: "loop_body adj mp bq sq ?init = Continue st'"
    and po: "profitable_orders st' =
      [(adj sq (row_price best_bid), adj bq (row_price best_ask), row_price best_bid,
        row_price best_ask, min (row_amount best_bid) (row_amount best_ask))]"
    using loop_body_emits [OF adv, of best_bid best_ask adj bq sq mp] cross mp
    by (simp add: loop_entry_def)
  have "matching_loop adj mp bq sq st' = Inr orders"
    using res body
    by (simp add: c_find_profitable_arbitrage_orders_loop
          matching_loop.simps [of adj mp bq sq ?init])
  then show ?thesis
    using matching_loop_prefix [of adj mp bq sq st' orders] po by simp
qed

text \<open>
  Two books on which the rounding of the leftover shows: one bid of 0.5 at 102
  against asks of 0.1 at 100 and of 0.4 at 101, the amounts being the doubles nearest
  to 0.1 and to 0.4, which are 3602879701896397 / 2^55 and 3602879701896397 / 2^53.
  The first step takes 0.1 from the bid; the exact remainder lies half way between two
  doubles and is rounded up, to the double 0.4, so the second step takes 0.4 and the
  two steps together take 2^-55 more than the bid offered.
\<close>

definition rounding_buy_order_book :: order_book where
  "rounding_buy_order_book =
     \<lparr>bid_entries = [\<lparr>row_price = 99, row_amount = 1\<rparr>],
      ask_entries =
        [\<lparr>row_price = 100, row_amount = 3602879701896397 / 36028797018963968\<rparr>,
         \<lparr>row_price = 101, row_amount = 3602879701896397 / 9007199254740992\<rparr>]\<rparr>"

definition rounding_sell_order_book :: order_book where
  "rounding_sell_order_book =
     \<lparr>bid_entries = [\<lparr>row_price = 102, row_amount = 1 / 2\<rparr>],
      ask_entries = [\<lparr>row_price = 104, row_amount = 1\<rparr>]\<rparr>"

lemma double_sub_tie:
  "double_sub (1 / 2) (3602879701896397 / 36028797018963968)
     = 3602879701896397 / 9007199254740992"
proof -
  let ?z = "(1 / 2 - 3602879701896397 / 36028797018963968) :: real"
  have lo: "2 powi (- 2) \<le> \<bar>?z\<bar>" and hi: "\<bar>?z\<bar> < 2 powi (- 2 + 1)"
    by (simp_all add: power_int_minus)
  have q: "?z / 2 powi (- 2 - 52) = 14411518807585587 / 2"
    by (simp add: power_int_minus)
  have r: "round_half_even (14411518807585587 / 2) = 7205759403792794"
    by (simp add: round_half_even_def Let_def)
  show ?thesis
    unfolding double_sub_def
    by (simp only: round_double_at [OF lo hi] q r) (simp add: power_int_minus)
qed

lemma rounding_amounts_are_doubles:
  "round_double (1 / 2) = 1 / 2"
  "round_double (3602879701896397 / 36028797018963968)
     = 3602879701896397 / 36028797018963968"
  "round_double (3602879701896397 / 9007199254740992)
     = 3602879701896397 / 9007199254740992"
proof -
  have "round_double (of_int 1 * 2 powi (- 1)) = of_int 1 * 2 powi (- 1)"
    by (rule round_double_exact) simp
  then show "round_double (1 / 2) = 1 / 2"
    by (simp add: power_int_minus)
  have "round_double (of_int 3602879701896397 * 2 powi (- 55))
      = of_int 3602879701896397 * 2 powi (- 55)"
    by (rule round_double_exact) simp
  then show "round_double (3602879701896397 / 36028797018963968)
      = 3602879701896397 / 36028797018963968"
    by (simp add: power_int_minus)
  have "round_double (of_int 3602879701896397 * 2 powi (- 53))
      = of_int 3602879701896397 * 2 powi (- 53)"
    by (rule round_double_exact) simp
  then show "round_double (3602879701896397 / 9007199254740992)
      = 3602879701896397 / 9007199254740992"
    by (simp add: power_int_minus)
qed

lemma rounding_matching:
  "c_find_profitable_arbitrage_orders (\<lambda>asset rate. rate) 0 rounding_buy_order_book
     rounding_sell_order_book ''USD'' ''USD''
     = Inr [(102, 100, 102, 100, 3602879701896397 / 36028797018963968),
            (102, 101, 102, 101, 3602879701896397 / 9007199254740992)]"
  by (simp add: c_find_profitable_arbitrage_orders_def rounding_buy_order_book_def
        rounding_sell_order_book_def matching_loop.simps loop_body_def
        advance_iterators_def Let_def double_sub_self double_sub_tie)

text \<open>
  C2, as the claim states it, fails on these books. They are well formed, their best
  bid 102 is above their best ask 100, and every amount is a double. The loop returns
  the steps 0.1 at 102/100 and 0.4 at 102/101; the bid depth up to the crossing point
  is 0.5, and the total matched amount is above it: the bound on the total does not
  hold of the double subtraction of lines 978-979.
\<close>

theorem matching_total_exceeds_depth_by_rounding:
  "order_books_well_formed (\<lambda>asset rate. rate) ''USD'' ''USD''
     rounding_buy_order_book rounding_sell_order_book
   \<and> list_all (\<lambda>row. round_double (row_amount row) = row_amount row)
       (bid_entries rounding_sell_order_book @ ask_entries rounding_buy_order_book)
   \<and> c_find_profitable_arbitrage_orders (\<lambda>asset rate. rate) 0 rounding_buy_order_book
       rounding_sell_order_book ''USD'' ''USD''
       = Inr [(102, 100, 102, 100, 3602879701896397 / 36028797018963968),
              (102, 101, 102, 101, 3602879701896397 / 9007199254740992)]
   \<and> bid_depth_to_crossing (\<lambda>asset rate. rate) ''USD'' 100
       (bid_entries rounding_sell_order_book) = 1 / 2
   \<and> depth_of (bid_entries rounding_sell_order_book) = 1 / 2
   \<and> total_matched [(102, 100, 102, 100, 3602879701896397 / 36028797018963968),
                     (102, 101, 102, 101, 3602879701896397 / 9007199254740992)]
       = 1 / 2 + 1 / 2 ^ 55
   \<and> min (bid_depth_to_crossing (\<lambda>asset rate. rate) ''USD'' 100
            (bid_entries rounding_sell_order_book))
          (ask_depth_to_crossing (\<lambda>asset rate. rate) ''USD'' 102
            (ask_entries rounding_buy_order_book))
       < total_matched [(102, 100, 102, 100, 3602879701896397 / 36028797018963968),
                        (102, 101, 102, 101, 3602879701896397 / 9007199254740992)]"
proof -
  have wf: "order_books_well_formed (\<lambda>asset rate. rate) ''USD'' ''USD''
      rounding_buy_order_book rounding_sell_order_book"
    by (simp add: order_books_well_formed_def rounding_buy_order_book_def
          rounding_sell_order_book_def)
  have doubles: "list_all (\<lambda>row. round_double (row_amount row) = row_amount row)
      (bid_entries rounding_sell_order_book @ ask_entries rounding_buy_order_book)"
    by (simp add: rounding_buy_order_book_def rounding_sell_order_book_def
          rounding_amounts_are_doubles)
  have bid: "bid_depth_to_crossing (\<lambda>asset rate. rate) ''USD'' 100
      (bid_entries rounding_sell_order_book) = 1 / 2"
    by (simp add: bid_depth_to_crossing_def depth_of_def rounding_sell_order_book_def)
  have all_bid: "depth_of (bid_entries rounding_sell_order_book) = 1 / 2"
    by (simp add: depth_of_def rounding_sell_order_book_def)
  have total: "total_matched [(102, 100, 102, 100, 3602879701896397 / 36028797018963968),
      (102, 101, 102, 101, 3602879701896397 / 9007199254740992)] = 1 / 2 + 1 / 2 ^ 55"
    by (simp add: total_matched_def step_amount_def)
  have less: "min (bid_depth_to_crossing (\<lambda>asset rate. rate) ''USD'' 100
            (bid_entries rounding_sell_order_book))
          (ask_depth_to_crossing (\<lambda>asset rate. rate) ''USD'' 102
            (ask_entries rounding_buy_order_book))
       < total_matched [(102, 100, 102, 100, 3602879701896397 / 36028797018963968),
                        (102, 101, 102, 101, 3602879701896397 / 9007199254740992)]"
    unfolding bid total by (simp add: min_def)
  show ?thesis
    using wf doubles rounding_matching bid all_bid total less by blast
qed

text \<open>
  C2, amended. For well-formed books with a best bid and a best ask, the function
  returns a list of steps (it does not raise); every step has its normalized bid price
  at or above its normalized ask price, and the bid/ask ratios do not increase along
  the list. When the normalized best bid is at least the normalized best ask and
  min_profitability is not negative, the list is not empty: its first step is the best
  bid against the best ask, for the smaller of their two amounts. A pass whose current
  normalized ask is at most its current normalized bid, and which passes the
  profitability test of a negative min_profitability, emits a step sized to the smaller
  leftover and replaces each leftover by the double difference of the leftover and the
  step; a pass that finds an iterator exhausted, or the current normalized bid below
  the current normalized ask, returns the steps emitted so far. The total matched
  amount is at most the smaller of the bid depth priced at or above the best ask and
  the ask depth priced at or below the best bid when the double subtraction is exact,
  which it is when every amount is a multiple of one power of two 2^k below 2^(53+k).
\<close>

theorem matching_steps_sized_and_sorted:
  assumes "order_books_well_formed adj bq sq buy_order_book sell_order_book"
    and "ask_entries buy_order_book = best_ask # asks"
    and "bid_entries sell_order_book = best_bid # bids"
  shows "(\<exists>orders. c_find_profitable_arbitrage_orders adj mp buy_order_book sell_order_book
                     bq sq = Inr orders
           \<and> list_all (\<lambda>t. step_ask_price_adjusted t \<le> step_bid_price_adjusted t) orders
           \<and> sorted_wrt (\<lambda>t u. step_ratio u \<le> step_ratio t) orders
           \<and> (adj bq (row_price best_ask) \<le> adj sq (row_price best_bid) \<and> 0 \<le> mp \<longrightarrow>
                (\<exists>rest. orders =
                   (adj sq (row_price best_bid), adj bq (row_price best_ask),
                    row_price best_bid, row_price best_ask,
                    min (row_amount best_bid) (row_amount best_ask)) # rest))
           \<and> (order_book_amounts_exact k buy_order_book sell_order_book \<longrightarrow>
                total_matched orders
                  \<le> min (bid_depth_to_crossing adj sq (adj bq (row_price best_ask))
                           (bid_entries sell_order_book))
                        (ask_depth_to_crossing adj bq (adj sq (row_price best_bid))
                           (ask_entries buy_order_book))))
       \<and> (\<forall>st st1 b a. advance_iterators st = Advanced st1 \<and> current_bid st1 = Some b
              \<and> current_ask st1 = Some a
              \<and> adj bq (row_price a) \<le> adj sq (row_price b)
              \<and> (0 \<le> mp \<or> (adj bq (row_price a) \<noteq> 0
                    \<and> 1 + mp \<le> adj sq (row_price b) / adj bq (row_price a))) \<longrightarrow>
            loop_body adj mp bq sq st = Continue
              (st1\<lparr>profitable_orders :=
                     profitable_orders st1 @
                       [(adj sq (row_price b), adj bq (row_price a), row_price b,
                         row_price a,
                         min (bid_leftover_amount st1) (ask_leftover_amount st1))],
                   ask_leftover_amount := double_sub (ask_leftover_amount st1)
                       (min (bid_leftover_amount st1) (ask_leftover_amount st1)),
                   bid_leftover_amount := double_sub (bid_leftover_amount st1)
                       (min (bid_leftover_amount st1) (ask_leftover_amount st1))\<rparr>))
       \<and> (\<forall>st st'. loop_body adj mp bq sq st = Continue st' \<longrightarrow>
            (\<exists>st1 t. advance_iterators st = Advanced st1
               \<and> profitable_orders st' = profitable_orders st @ [t]
               \<and> step_amount t = min (bid_leftover_amount st1) (ask_leftover_amount st1)
               \<and> bid_leftover_amount st'
                   = double_sub (bid_leftover_amount st1) (step_amount t)
               \<and> ask_leftover_amount st'
                   = double_sub (ask_leftover_amount st1) (step_amount t)))
       \<and> (\<forall>st. advance_iterators st = StopIteration \<longrightarrow>
            loop_body adj mp bq sq st = Return (profitable_orders st))
       \<and> (\<forall>st st1 b a. advance_iterators st = Advanced st1 \<and> current_bid st1 = Some b
              \<and> current_ask st1 = Some a \<and> adj sq (row_price b) < adj bq (row_price a) \<longrightarrow>
            loop_body adj mp bq sq st = Return (profitable_orders st))"
proof -
  obtain orders where res: "c_find_profitable_arbitrage_orders adj mp buy_order_book
        sell_order_book bq sq = Inr orders"
    and cross: "list_all (\<lambda>t. step_ask_price_adjusted t \<le> step_bid_price_adjusted t) orders"
    and sorted: "sorted_wrt (\<lambda>t u. step_ratio u \<le> step_ratio t) orders"
    using matching_sorted [OF assms(1), of mp] by blast
  have first: "\<exists>rest. orders =
      (adj sq (row_price best_bid), adj bq (row_price best_ask), row_price best_bid,
       row_price best_ask, min (row_amount best_bid) (row_amount best_ask)) # rest"
    if "adj bq (row_price best_ask) \<le> adj sq (row_price best_bid)" and "0 \<le> mp"
    using first_step [OF assms(2) assms(3) that res] .
  have bound: "total_matched orders
      \<le> min (bid_depth_to_crossing adj sq (adj bq (row_price best_ask))
               (bid_entries sell_order_book))
            (ask_depth_to_crossing adj bq (adj sq (row_price best_bid))
               (ask_entries buy_order_book))"
    if "order_book_amounts_exact k buy_order_book sell_order_book"
    using matching_bounded [OF assms(1) that assms(2) assms(3) res] .
  have result: "\<exists>orders. c_find_profitable_arbitrage_orders adj mp buy_order_book
        sell_order_book bq sq = Inr orders
      \<and> list_all (\<lambda>t. step_ask_price_adjusted t \<le> step_bid_price_adjusted t) orders
      \<and> sorted_wrt (\<lambda>t u. step_ratio u \<le> step_ratio t) orders
      \<and> (adj bq (row_price best_ask) \<le> adj sq (row_price best_bid) \<and> 0 \<le> mp \<longrightarrow>
           (\<exists>rest. orders =
              (adj sq (row_price best_bid), adj bq (row_price best_ask),
               row_price best_bid, row_price best_ask,
               min (row_amount best_bid) (row_amount best_ask)) # rest))
      \<and> (order_book_amounts_exact k buy_order_book sell_order_book \<longrightarrow>
           total_matched orders
             \<le> min (bid_depth_to_crossing adj sq (adj bq (row_price best_ask))
                      (bid_entries sell_order_book))
                   (ask_depth_to_crossing adj bq (adj sq (row_price best_bid))
                      (ask_entries buy_order_book)))"
    using res cross sorted first bound by blast
  have emits: "\<forall>st st1 b a. advance_iterators st = Advanced st1 \<and> current_bid st1 = Some b
        \<and> current_ask st1 = Some a
        \<and> adj bq (row_price a) \<le> adj sq (row_price b)
        \<and> (0 \<le> mp \<or> (adj bq (row_price a) \<noteq> 0
              \<and> 1 + mp \<le> adj sq (row_price b) / adj bq (row_price a))) \<longrightarrow>
      loop_body adj mp bq sq st = Continue
              (st1\<lparr>profitable_orders :=
                     profitable_orders st1 @
                       [(adj sq (row_price b), adj bq (row_price a), row_price b,
                         row_price a,
                         min (bid_leftover_amount st1) (ask_leftover_amount st1))],
                   ask_leftover_amount := double_sub (ask_leftover_amount st1)
                       (min (bid_leftover_amount st1) (ask_leftover_amount st1)),
                   bid_leftover_amount := double_sub (bid_leftover_amount st1)
                       (min (bid_leftover_amount st1) (ask_leftover_amount st1))\<rparr>)"
    using loop_body_emits [of _ _ _ _ adj bq sq mp] by blast
  have sized: "\<forall>st st'. loop_body adj mp bq sq st = Continue st' \<longrightarrow>
      (\<exists>st1 t. advance_iterators st = Advanced st1
         \<and> profitable_orders st' = profitable_orders st @ [t]
         \<and> step_amount t = min (bid_leftover_amount st1) (ask_leftover_amount st1)
         \<and> bid_leftover_amount st'
             = double_sub (bid_leftover_amount st1) (step_amount t)
         \<and> ask_leftover_amount st'
             = double_sub (ask_leftover_amount st1) (step_amount t))"
    using loop_body_step_size [of adj mp bq sq] by blast
  have stops: "(\<forall>st. advance_iterators st = StopIteration \<longrightarrow>
        loop_body adj mp bq sq st = Return (profitable_orders st))
     \<and> (\<forall>st st1 b a. advance_iterators st = Advanced st1 \<and> current_bid st1 = Some b
          \<and> current_ask st1 = Some a \<and> adj sq (row_price b) < adj bq (row_price a) \<longrightarrow>
        loop_body adj mp bq sq st = Return (profitable_orders st))"
    using loop_body_stops [of _ adj mp bq sq] by blast
  show ?thesis
    using result emits sized stops by (simp only: simp_thms)
qed

text \<open>
  The example of the specification: bids 102 (1) and 101 (2) against asks 100 (1.5)
  and 103 (5), no normalization. Every amount is a multiple of 1/2.
\<close>

definition example_buy_order_book :: order_book where
  "example_buy_order_book =
     \<lparr>bid_entries = [\<lparr>row_price = 99, row_amount = 1\<rparr>],
      ask_entries = [\<lparr>row_price = 100, row_amount = 3 / 2\<rparr>,
                     \<lparr>row_price = 103, row_amount = 5\<rparr>]\<rparr>"

definition example_sell_order_book :: order_book where
  "example_sell_order_book =
     \<lparr>bid_entries = [\<lparr>row_price = 102, row_amount = 1\<rparr>,
                     \<lparr>row_price = 101, row_amount = 2\<rparr>],
      ask_entries = [\<lparr>row_price = 104, row_amount = 1\<rparr>]\<rparr>"

lemma on_grid_halves:
  "on_grid (- 1) 1" "on_grid (- 1) (1 / 2)" "on_grid (- 1) (3 / 2)" "on_grid (- 1) 2"
  "on_grid (- 1) 5"
  using on_gridI [of 2 "- 1"] on_gridI [of 1 "- 1"] on_gridI [of 3 "- 1"]
    on_gridI [of 4 "- 1"] on_gridI [of 10 "- 1"]
  by (simp_all add: power_int_minus)

lemma example_differences:
  "double_sub (3 / 2) 1 = 1 / 2" "double_sub 2 (1 / 2) = 3 / 2"
  using on_grid_diff(2) [of "- 1" "3 / 2" 1] on_grid_diff(2) [of "- 1" 2 "1 / 2"]
  by (simp_all add: on_grid_halves)

lemma example_matching:
  "c_find_profitable_arbitrage_orders (\<lambda>asset rate. rate) 0 example_buy_order_book
     example_sell_order_book ''USD'' ''USD''
     = Inr [(102, 100, 102, 100, 1), (101, 100, 101, 100, 1 / 2)]"
  by (simp add: c_find_profitable_arbitrage_orders_def example_buy_order_book_def
        example_sell_order_book_def matching_loop.simps loop_body_def
        advance_iterators_def Let_def double_sub_self example_differences)

text \<open>
  The amended C2 on the example: two steps, the first of 1 at 102/100, which is the
  best bid against the best ask for the smaller of 1 and 1.5, then 0.5 at 101/100;
  the total 1.5 is the ask depth priced at or below 102.
\<close>

theorem matching_steps_sized_and_sorted_witness:
  "c_find_profitable_arbitrage_orders (\<lambda>asset rate. rate) 0 example_buy_order_book
     example_sell_order_book ''USD'' ''USD''
     = Inr [(102, 100, 102, 100, 1), (101, 100, 101, 100, 1 / 2)]
   \<and> order_books_well_formed (\<lambda>asset rate. rate) ''USD'' ''USD''
       example_buy_order_book example_sell_order_book
   \<and> order_book_amounts_exact (- 1) example_buy_order_book example_sell_order_book
   \<and> sorted_wrt (\<lambda>t u. step_ratio u \<le> step_ratio t)
        [(102, 100, 102, 100, 1), (101, 100, 101, 100, 1 / 2)]
   \<and> total_matched [(102, 100, 102, 100, 1), (101, 100, 101, 100, 1 / 2)]
        \<le> min (bid_depth_to_crossing (\<lambda>asset rate. rate) ''USD'' 100
                 (bid_entries example_sell_order_book))
              (ask_depth_to_crossing (\<lambda>asset rate. rate) ''USD'' 102
                 (ask_entries example_buy_order_book))
   \<and> ask_depth_to_crossing (\<lambda>asset rate. rate) ''USD'' 102
        (ask_entries example_buy_order_book) = 3 / 2"
proof -
  have wf: "order_books_well_formed (\<lambda>asset rate. rate) ''USD'' ''USD''
      example_buy_order_book example_sell_order_book"
    by (simp add: order_books_well_formed_def example_buy_order_book_def
          example_sell_order_book_def)
  have exact: "order_book_amounts_exact (- 1) example_buy_order_book
      example_sell_order_book"
    by (simp add: order_book_amounts_exact_def example_buy_order_book_def
          example_sell_order_book_def on_grid_halves)
  have asks: "ask_entries example_buy_order_book
      = \<lparr>row_price = 100, row_amount = 3 / 2\<rparr> # [\<lparr>row_price = 103, row_amount = 5\<rparr>]"
    by (simp add: example_buy_order_book_def)
  have bids: "bid_entries example_sell_order_book
      = \<lparr>row_price = 102, row_amount = 1\<rparr> # [\<lparr>row_price = 101, row_amount = 2\<rparr>]"
    by (simp add: example_sell_order_book_def)
  have depth: "ask_depth_to_crossing (\<lambda>asset rate. rate) ''USD'' 102
      (ask_entries example_buy_order_book) = 3 / 2"
    by (simp add: ask_depth_to_crossing_def depth_of_def example_buy_order_book_def)
  show ?thesis
    using matching_steps_sized_and_sorted [OF wf asks bids, of 0 "- 1"] example_matching
      wf exact depth
    by auto
qed

end
